theory Spec2Isabelle
  imports Main
begin

section \<open>DNS-01 provider adapters: inwx, hostingde, netcup, checkdomain\<close>

text \<open>
  The adapters talk to remote services through client libraries. Every client call is
  modelled as a function on a world \<open>'w\<close> (the state of the remote service and of the
  network), supplied as a parameter; the adapter threads the world through its calls in
  the order the Go code makes them, and appends one entry per call, with the reply, to a
  call log. Calls to the logger are left out.
\<close>

subsection \<open>Errors\<close>

datatype error =
    ErrorResponse int string string
      \<comment> \<open>a \<open>*goinwx.ErrorResponse\<close>: Code, Message, Reason\<close>
  | Failure string
      \<comment> \<open>any other error value, with its text\<close>
  | Errorf string error
      \<comment> \<open>\<open>fmt.Errorf("<prefix>%w", err)\<close>: the text before the verb, and the wrapped error\<close>

subsection \<open>Calls and the call log\<close>

type_synonym ('w, 'c) st = "'w \<times> 'c list"

definition invoke :: "('r \<Rightarrow> 'c) \<Rightarrow> ('w \<Rightarrow> 'r \<times> 'w) \<Rightarrow> ('w, 'c) st \<Rightarrow> 'r \<times> ('w, 'c) st" where
  "invoke ev f s = (case f (fst s) of (r, w') \<Rightarrow> (r, (w', snd s @ [ev r])))"

subsection \<open>lego's dns01 helpers\<close>

text \<open>\<open>dns01.UnFqdn\<close>: drops one trailing dot.\<close>

definition UnFqdn :: "string \<Rightarrow> string" where
  "UnFqdn name = (if name \<noteq> [] \<and> last name = CHR ''.'' then butlast name else name)"

subsection \<open>inwx\<close>

record NameserverRecordRequest =
  req_Domain :: string
  req_Name :: string
  req_Type :: string
  req_Content :: string
  req_TTL :: int

record NameserverInfoRequest =
  info_Domain :: string
  info_Name :: string
  info_Type :: string

record NameserverRecord =
  rec_ID :: int
  rec_Name :: string
  rec_Type :: string
  rec_Content :: string
  rec_TTL :: int

record NameserverInfoResponse =
  Records :: "NameserverRecord list"

text \<open>The goinwx client and \<open>dns01.FindZoneByFqdn\<close>, as the adapter uses them.\<close>

record 'w inwx_client =
  inwx_FindZoneByFqdn :: "string \<Rightarrow> 'w \<Rightarrow> (error + string) \<times> 'w"
  Account_Login :: "'w \<Rightarrow> error option \<times> 'w"
  Account_Logout :: "'w \<Rightarrow> error option \<times> 'w"
  Nameservers_CreateRecord :: "NameserverRecordRequest \<Rightarrow> 'w \<Rightarrow> (error + int) \<times> 'w"
  Nameservers_Info :: "NameserverInfoRequest \<Rightarrow> 'w \<Rightarrow> (error + NameserverInfoResponse) \<times> 'w"
  Nameservers_DeleteRecord :: "int \<Rightarrow> 'w \<Rightarrow> error option \<times> 'w"

datatype inwx_call =
    Call_FindZoneByFqdn string "error + string"
  | Call_Login "error option"
  | Call_Logout "error option"
  | Call_CreateRecord NameserverRecordRequest "error + int"
  | Call_Info NameserverInfoRequest "error + NameserverInfoResponse"
  | Call_DeleteRecord int "error option"

record 'w inwx_DNSProvider =
  inwx_TTL :: int
  inwx_client :: "'w inwx_client"

text \<open>The part of \<open>Present\<close> after the \<open>defer\<close> statement.\<close>

definition inwx_Present_body ::
  "'w inwx_DNSProvider \<Rightarrow> string \<Rightarrow> string \<Rightarrow> string \<Rightarrow> ('w, inwx_call) st
    \<Rightarrow> error option \<times> ('w, inwx_call) st" where
  "inwx_Present_body d authZone fqdn val s =
     (let request = \<lparr>req_Domain = UnFqdn authZone, req_Name = UnFqdn fqdn,
                      req_Type = ''TXT'', req_Content = val, req_TTL = inwx_TTL d\<rparr>
      in case invoke (Call_CreateRecord request)
                (Nameservers_CreateRecord (inwx_client d) request) s of
           (Inl err, s') \<Rightarrow>
             (case err of
                ErrorResponse c m r \<Rightarrow>
                  if m = ''Object exists'' then (None, s')
                  else (Some (Errorf ''inwx: '' err), s')
              | _ \<Rightarrow> (Some (Errorf ''inwx: '' err), s'))
         | (Inr _, s') \<Rightarrow> (None, s'))"

text \<open>
  \<open>Present\<close>: zone lookup, login, then the body; the deferred logout runs after the body
  on every path, and its error is only logged.
\<close>

definition inwx_Present ::
  "'w inwx_DNSProvider \<Rightarrow> string \<Rightarrow> string \<Rightarrow> string \<Rightarrow> string \<Rightarrow> ('w, inwx_call) st
    \<Rightarrow> error option \<times> ('w, inwx_call) st" where
  "inwx_Present d domain token fqdn val s =
     (case invoke (Call_FindZoneByFqdn fqdn) (inwx_FindZoneByFqdn (inwx_client d) fqdn) s of
        (Inl err, s1) \<Rightarrow> (Some (Errorf ''inwx: '' err), s1)
      | (Inr authZone, s1) \<Rightarrow>
          (case invoke Call_Login (Account_Login (inwx_client d)) s1 of
             (Some err, s2) \<Rightarrow> (Some (Errorf ''inwx: '' err), s2)
           | (None, s2) \<Rightarrow>
               (case inwx_Present_body d authZone fqdn val s2 of
                  (res, s3) \<Rightarrow>
                    (case invoke Call_Logout (Account_Logout (inwx_client d)) s3 of
                       (errL, s4) \<Rightarrow> (res, s4)))))"

text \<open>The deletion loop of \<open>CleanUp\<close>, with its variable \<open>lastErr\<close>.\<close>

fun inwx_delete_loop ::
  "'w inwx_DNSProvider \<Rightarrow> NameserverRecord list \<Rightarrow> error option \<Rightarrow> ('w, inwx_call) st
    \<Rightarrow> error option \<times> ('w, inwx_call) st" where
  "inwx_delete_loop d [] lastErr s = (lastErr, s)"
| "inwx_delete_loop d (r # rs) lastErr s =
     (case invoke (Call_DeleteRecord (rec_ID r))
             (Nameservers_DeleteRecord (inwx_client d) (rec_ID r)) s of
        (Some err, s') \<Rightarrow> inwx_delete_loop d rs (Some (Errorf ''inwx: '' err)) s'
      | (None, s') \<Rightarrow> inwx_delete_loop d rs lastErr s')"

definition inwx_CleanUp_body ::
  "'w inwx_DNSProvider \<Rightarrow> string \<Rightarrow> string \<Rightarrow> ('w, inwx_call) st
    \<Rightarrow> error option \<times> ('w, inwx_call) st" where
  "inwx_CleanUp_body d authZone fqdn s =
     (let request = \<lparr>info_Domain = UnFqdn authZone, info_Name = UnFqdn fqdn,
                      info_Type = ''TXT''\<rparr>
      in case invoke (Call_Info request) (Nameservers_Info (inwx_client d) request) s of
           (Inl err, s') \<Rightarrow> (Some (Errorf ''inwx: '' err), s')
         | (Inr response, s') \<Rightarrow> inwx_delete_loop d (Records response) None s')"

definition inwx_CleanUp ::
  "'w inwx_DNSProvider \<Rightarrow> string \<Rightarrow> string \<Rightarrow> string \<Rightarrow> string \<Rightarrow> ('w, inwx_call) st
    \<Rightarrow> error option \<times> ('w, inwx_call) st" where
  "inwx_CleanUp d domain token fqdn val s =
     (case invoke (Call_FindZoneByFqdn fqdn) (inwx_FindZoneByFqdn (inwx_client d) fqdn) s of
        (Inl err, s1) \<Rightarrow> (Some (Errorf ''inwx: '' err), s1)
      | (Inr authZone, s1) \<Rightarrow>
          (case invoke Call_Login (Account_Login (inwx_client d)) s1 of
             (Some err, s2) \<Rightarrow> (Some (Errorf ''inwx: '' err), s2)
           | (None, s2) \<Rightarrow>
               (case inwx_CleanUp_body d authZone fqdn s2 of
                  (res, s3) \<Rightarrow>
                    (case invoke Call_Logout (Account_Logout (inwx_client d)) s3 of
                       (errL, s4) \<Rightarrow> (res, s4)))))"

fun is_inwx_logout :: "inwx_call \<Rightarrow> bool" where
  "is_inwx_logout (Call_Logout _) = True"
| "is_inwx_logout _ = False"

text \<open>The errors an error value carries: itself and, through \<open>%w\<close>, the ones it wraps.\<close>

fun carried :: "error \<Rightarrow> error list" where
  "carried (Errorf p e) = Errorf p e # carried e"
| "carried e = [e]"

text \<open>The failures among the deletions a call log records, in call order.\<close>

fun delete_failures :: "inwx_call list \<Rightarrow> error list" where
  "delete_failures [] = []"
| "delete_failures (Call_DeleteRecord i (Some e) # cs) = e # delete_failures cs"
| "delete_failures (c # cs) = delete_failures cs"

subsection \<open>hostingde\<close>

record hd_DNSRecord =
  hd_ID :: string
  hd_Name :: string
  hd_Type :: string
  hd_Content :: string
  hd_TTL :: int

record ZoneConfig =
  zc_ID :: string
  zc_Name :: string

record ZoneConfigsFindRequest =
  find_AuthToken :: string
  find_Field :: string
  find_Value :: string
  find_Limit :: int
  find_Page :: int

record ZoneUpdateRequest =
  upd_AuthToken :: string
  upd_ZoneConfig :: ZoneConfig
  RecordsToAdd :: "hd_DNSRecord list"
  RecordsToDelete :: "hd_DNSRecord list"

record ZoneUpdateResponse =
  Response_Records :: "hd_DNSRecord list"

text \<open>
  The methods \<open>getZone\<close> and \<open>updateZone\<close> are not in the sources at hand: they are
  parameters, functions on the world that leave the record-ID map alone. \<open>getZone\<close>
  returns a zone configuration or an error.
\<close>

record 'w hd_client =
  getZone :: "ZoneConfigsFindRequest \<Rightarrow> 'w \<Rightarrow> (error + ZoneConfig) \<times> 'w"
  updateZone :: "ZoneUpdateRequest \<Rightarrow> 'w \<Rightarrow> (error + ZoneUpdateResponse) \<times> 'w"

datatype hd_call =
    Call_getZone ZoneConfigsFindRequest "error + ZoneConfig"
  | Call_updateZone ZoneUpdateRequest "error + ZoneUpdateResponse"

record 'w hd_DNSProvider =
  hd_APIKey :: string
  hd_ZoneName :: string
  hd_cfg_TTL :: int
  hd_client :: "'w hd_client"

text \<open>Reading a Go \<open>map[string]string\<close>: a missing key reads as the empty string.\<close>

definition map_index :: "(string \<rightharpoonup> string) \<Rightarrow> string \<Rightarrow> string" where
  "map_index m k = (case m k of None \<Rightarrow> [] | Some v \<Rightarrow> v)"

text \<open>\<open>fmt.Sprintf(`"%s"`, value)\<close> and \<open>`"` + value + `"`\<close>.\<close>

definition quoted :: "string \<Rightarrow> string" where
  "quoted v = CHR 0x22 # v @ [CHR 0x22]"

definition zonesFind :: "'w hd_DNSProvider \<Rightarrow> ZoneConfigsFindRequest" where
  "zonesFind d = \<lparr>find_AuthToken = hd_APIKey d, find_Field = ''zoneName'',
                  find_Value = hd_ZoneName d, find_Limit = 1, find_Page = 1\<rparr>"

text \<open>The loop of \<open>Present\<close> over the records of the response.\<close>

fun hd_store_ids ::
  "hd_DNSRecord list \<Rightarrow> string \<Rightarrow> string \<Rightarrow> (string \<rightharpoonup> string) \<Rightarrow> (string \<rightharpoonup> string)" where
  "hd_store_ids [] fqdn val recordIDs = recordIDs"
| "hd_store_ids (r # rs) fqdn val recordIDs =
     hd_store_ids rs fqdn val
       (if hd_Name r = UnFqdn fqdn \<and> hd_Content r = quoted val
        then recordIDs(fqdn \<mapsto> hd_ID r) else recordIDs)"

definition hostingde_Present ::
  "'w hd_DNSProvider \<Rightarrow> string \<Rightarrow> string \<Rightarrow> string \<Rightarrow> string
    \<Rightarrow> (string \<rightharpoonup> string) \<Rightarrow> ('w, hd_call) st
    \<Rightarrow> error option \<times> (string \<rightharpoonup> string) \<times> ('w, hd_call) st" where
  "hostingde_Present d domain token fqdn val recordIDs s =
     (case invoke (Call_getZone (zonesFind d)) (getZone (hd_client d) (zonesFind d)) s of
        (Inl err, s1) \<Rightarrow> (Some (Errorf ''hostingde: '' err), recordIDs, s1)
      | (Inr zoneConfig, s1) \<Rightarrow>
          (let req = \<lparr>upd_AuthToken = hd_APIKey d,
                      upd_ZoneConfig = zoneConfig\<lparr>zc_Name := hd_ZoneName d\<rparr>,
                      RecordsToAdd = [\<lparr>hd_ID = [], hd_Name = UnFqdn fqdn, hd_Type = ''TXT'',
                                       hd_Content = val, hd_TTL = hd_cfg_TTL d\<rparr>],
                      RecordsToDelete = []\<rparr>
           in case invoke (Call_updateZone req) (updateZone (hd_client d) req) s1 of
                (Inl err, s2) \<Rightarrow> (Some (Errorf ''hostingde: '' err), recordIDs, s2)
              | (Inr resp, s2) \<Rightarrow>
                  (let recordIDs' = hd_store_ids (Response_Records resp) fqdn val recordIDs
                   in if map_index recordIDs' fqdn = []
                      then (Some (Failure (''hostingde: error getting ID of just created record, for domain '' @ domain)),
                            recordIDs', s2)
                      else (None, recordIDs', s2))))"

definition hostingde_CleanUp ::
  "'w hd_DNSProvider \<Rightarrow> string \<Rightarrow> string \<Rightarrow> string \<Rightarrow> string
    \<Rightarrow> (string \<rightharpoonup> string) \<Rightarrow> ('w, hd_call) st
    \<Rightarrow> error option \<times> (string \<rightharpoonup> string) \<times> ('w, hd_call) st" where
  "hostingde_CleanUp d domain token fqdn val recordIDs s =
     (let rec = [\<lparr>hd_ID = [], hd_Name = UnFqdn fqdn, hd_Type = ''TXT'',
                  hd_Content = quoted val, hd_TTL = 0\<rparr>]
      in case invoke (Call_getZone (zonesFind d)) (getZone (hd_client d) (zonesFind d)) s of
           (Inl err, s1) \<Rightarrow> (Some (Errorf ''hostingde: '' err), recordIDs, s1)
         | (Inr zoneConfig, s1) \<Rightarrow>
             (let req = \<lparr>upd_AuthToken = hd_APIKey d,
                         upd_ZoneConfig = zoneConfig\<lparr>zc_Name := hd_ZoneName d\<rparr>,
                         RecordsToAdd = [], RecordsToDelete = rec\<rparr>;
                  recordIDs' = recordIDs(fqdn := None)
              in case invoke (Call_updateZone req) (updateZone (hd_client d) req) s1 of
                   (Inl err, s2) \<Rightarrow> (Some (Errorf ''hostingde: '' err), recordIDs', s2)
                 | (Inr _, s2) \<Rightarrow> (None, recordIDs', s2)))"

subsection \<open>netcup\<close>

text \<open>\<open>strings.Replace(s, old, new, 1)\<close>: the first occurrence of \<open>old\<close> is replaced.\<close>

fun strings_Replace1 :: "string \<Rightarrow> string \<Rightarrow> string \<Rightarrow> string" where
  "strings_Replace1 [] old new = (if old = [] then new else [])"
| "strings_Replace1 (c # cs) old new =
     (if take (length old) (c # cs) = old then new @ drop (length old) (c # cs)
      else c # strings_Replace1 cs old new)"

record nc_DNSRecord =
  nc_ID :: int
  Hostname :: string
  RecordType :: string
  Destination :: string
  DeleteRecord :: bool
  nc_TTL :: int

text \<open>
  The package \<open>netcup/internal\<close> is not in the sources at hand: its client calls and
  \<open>GetDNSRecordIdx\<close> are parameters. \<open>GetDNSRecords\<close> returns a record list together
  with an error or \<open>nil\<close>, because \<open>Present\<close> goes on with the list when the error is set.
\<close>

record 'w nc_client =
  nc_FindZoneByFqdn :: "string \<Rightarrow> 'w \<Rightarrow> (error + string) \<times> 'w"
  nc_Login :: "'w \<Rightarrow> (error + string) \<times> 'w"
  nc_Logout :: "string \<Rightarrow> 'w \<Rightarrow> error option \<times> 'w"
  GetDNSRecords :: "string \<Rightarrow> string \<Rightarrow> 'w \<Rightarrow> (nc_DNSRecord list \<times> error option) \<times> 'w"
  UpdateDNSRecord :: "string \<Rightarrow> string \<Rightarrow> nc_DNSRecord list \<Rightarrow> 'w \<Rightarrow> error option \<times> 'w"
  GetDNSRecordIdx :: "nc_DNSRecord list \<Rightarrow> nc_DNSRecord \<Rightarrow> error + int"

datatype nc_call =
    Nc_FindZoneByFqdn string "error + string"
  | Nc_Login "error + string"
  | Nc_Logout string "error option"
  | Nc_GetDNSRecords string string "nc_DNSRecord list \<times> error option"
  | Nc_UpdateDNSRecord string string "nc_DNSRecord list" "error option"


fun is_nc_update :: "nc_call \<Rightarrow> bool" where
  "is_nc_update (Nc_UpdateDNSRecord _ _ _ _) = True"
| "is_nc_update _ = False"

record 'w nc_DNSProvider =
  nc_cfg_TTL :: int
  nc_client :: "'w nc_client"

text \<open>A call either returns its error value (\<open>nil\<close> is \<open>None\<close>) or panics.\<close>

datatype outcome = Returned "error option" | Panicked

definition netcup_Present_body ::
  "'w nc_DNSProvider \<Rightarrow> string \<Rightarrow> string \<Rightarrow> string \<Rightarrow> string \<Rightarrow> ('w, nc_call) st
    \<Rightarrow> outcome \<times> ('w, nc_call) st" where
  "netcup_Present_body d zone sessionID fqdn val s =
     (let hostname = strings_Replace1 fqdn (CHR ''.'' # zone) [];
          record = \<lparr>nc_ID = 0, Hostname = hostname, RecordType = ''TXT'',
                    Destination = val, DeleteRecord = False, nc_TTL = nc_cfg_TTL d\<rparr>;
          zone' = UnFqdn zone
      in case invoke (Nc_GetDNSRecords zone' sessionID)
                (GetDNSRecords (nc_client d) zone' sessionID) s of
           ((records, err), s1) \<Rightarrow>
             (case invoke (Nc_UpdateDNSRecord sessionID zone' (records @ [record]))
                     (UpdateDNSRecord (nc_client d) sessionID zone' (records @ [record])) s1 of
                (Some e, s2) \<Rightarrow>
                  (Returned (Some (Errorf ''netcup: failed to add TXT-Record: '' e)), s2)
              | (None, s2) \<Rightarrow> (Returned None, s2)))"

definition netcup_Present ::
  "'w nc_DNSProvider \<Rightarrow> string \<Rightarrow> string \<Rightarrow> string \<Rightarrow> string \<Rightarrow> ('w, nc_call) st
    \<Rightarrow> outcome \<times> ('w, nc_call) st" where
  "netcup_Present d domainName token fqdn val s =
     (case invoke (Nc_FindZoneByFqdn fqdn) (nc_FindZoneByFqdn (nc_client d) fqdn) s of
        (Inl err, s1) \<Rightarrow> (Returned (Some (Errorf ''netcup: failed to find DNSZone, '' err)), s1)
      | (Inr zone, s1) \<Rightarrow>
          (case invoke Nc_Login (nc_Login (nc_client d)) s1 of
             (Inl err, s2) \<Rightarrow> (Returned (Some (Errorf ''netcup: '' err)), s2)
           | (Inr sessionID, s2) \<Rightarrow>
               (case netcup_Present_body d zone sessionID fqdn val s2 of
                  (res, s3) \<Rightarrow>
                    (case invoke (Nc_Logout sessionID) (nc_Logout (nc_client d) sessionID) s3 of
                       (errL, s4) \<Rightarrow> (res, s4)))))"

text \<open>
  In \<open>CleanUp\<close>, \<open>records[idx]\<close> panics when \<open>idx\<close> is outside the slice; the deferred
  logout runs then too.
\<close>

definition netcup_CleanUp_body ::
  "'w nc_DNSProvider \<Rightarrow> string \<Rightarrow> string \<Rightarrow> string \<Rightarrow> string \<Rightarrow> ('w, nc_call) st
    \<Rightarrow> outcome \<times> ('w, nc_call) st" where
  "netcup_CleanUp_body d zone sessionID fqdn val s =
     (let hostname = strings_Replace1 fqdn (CHR ''.'' # zone) [];
          zone' = UnFqdn zone
      in case invoke (Nc_GetDNSRecords zone' sessionID)
                (GetDNSRecords (nc_client d) zone' sessionID) s of
           ((records, Some err), s1) \<Rightarrow> (Returned (Some (Errorf ''netcup: '' err)), s1)
         | ((records, None), s1) \<Rightarrow>
             (let record = \<lparr>nc_ID = 0, Hostname = hostname, RecordType = ''TXT'',
                             Destination = val, DeleteRecord = False, nc_TTL = 0\<rparr>
              in case GetDNSRecordIdx (nc_client d) records record of
                   Inl err \<Rightarrow> (Returned (Some (Errorf ''netcup: '' err)), s1)
                 | Inr idx \<Rightarrow>
                     if idx < 0 \<or> int (length records) \<le> idx then (Panicked, s1)
                     else
                       (let r = (records ! nat idx)\<lparr>DeleteRecord := True\<rparr>
                        in case invoke (Nc_UpdateDNSRecord sessionID zone' [r])
                                  (UpdateDNSRecord (nc_client d) sessionID zone' [r]) s1 of
                             (Some e, s2) \<Rightarrow> (Returned (Some (Errorf ''netcup: '' e)), s2)
                           | (None, s2) \<Rightarrow> (Returned None, s2))))"

definition netcup_CleanUp ::
  "'w nc_DNSProvider \<Rightarrow> string \<Rightarrow> string \<Rightarrow> string \<Rightarrow> string \<Rightarrow> ('w, nc_call) st
    \<Rightarrow> outcome \<times> ('w, nc_call) st" where
  "netcup_CleanUp d domainName token fqdn val s =
     (case invoke (Nc_FindZoneByFqdn fqdn) (nc_FindZoneByFqdn (nc_client d) fqdn) s of
        (Inl err, s1) \<Rightarrow> (Returned (Some (Errorf ''netcup: failed to find DNSZone, '' err)), s1)
      | (Inr zone, s1) \<Rightarrow>
          (case invoke Nc_Login (nc_Login (nc_client d)) s1 of
             (Inl err, s2) \<Rightarrow> (Returned (Some (Errorf ''netcup: '' err)), s2)
           | (Inr sessionID, s2) \<Rightarrow>
               (case netcup_CleanUp_body d zone sessionID fqdn val s2 of
                  (res, s3) \<Rightarrow>
                    (case invoke (Nc_Logout sessionID) (nc_Logout (nc_client d) sessionID) s3 of
                       (errL, s4) \<Rightarrow> (res, s4)))))"

subsection \<open>checkdomain\<close>

record cd_Record =
  cd_Name :: string
  cd_TTL :: int
  cd_Type :: string
  cd_Value :: string

text \<open>
  The provider's state is its map \<open>domainIDMapping\<close> and the world. The methods
  \<open>getDomainIDByName\<close>, \<open>checkNameservers\<close>, \<open>createRecord\<close> and \<open>deleteTXTRecord\<close> are
  not in the sources at hand: they are parameters, and as methods of the provider they
  may change the map.
\<close>

type_synonym 'w cd_state = "(string \<rightharpoonup> int) \<times> 'w"

record 'w cd_DNSProvider =
  cd_cfg_TTL :: int
  getDomainIDByName :: "string \<Rightarrow> 'w cd_state \<Rightarrow> (error + int) \<times> 'w cd_state"
  checkNameservers :: "int \<Rightarrow> 'w cd_state \<Rightarrow> error option \<times> 'w cd_state"
  createRecord :: "int \<Rightarrow> cd_Record \<Rightarrow> 'w cd_state \<Rightarrow> error option \<times> 'w cd_state"
  deleteTXTRecord :: "int \<Rightarrow> string \<Rightarrow> string \<Rightarrow> 'w cd_state \<Rightarrow> error option \<times> 'w cd_state"

definition checkdomain_Present ::
  "'w cd_DNSProvider \<Rightarrow> string \<Rightarrow> string \<Rightarrow> string \<Rightarrow> string \<Rightarrow> 'w cd_state
    \<Rightarrow> error option \<times> 'w cd_state" where
  "checkdomain_Present d domain token fqdn val s =
     (case getDomainIDByName d domain s of
        (Inl err, s1) \<Rightarrow> (Some (Errorf ''checkdomain: '' err), s1)
      | (Inr domainID, s1) \<Rightarrow>
          (case checkNameservers d domainID s1 of
             (Some err, s2) \<Rightarrow> (Some (Errorf ''checkdomain: '' err), s2)
           | (None, s2) \<Rightarrow>
               (case createRecord d domainID
                       \<lparr>cd_Name = fqdn, cd_TTL = cd_cfg_TTL d, cd_Type = ''TXT'', cd_Value = val\<rparr> s2 of
                  (Some err, s3) \<Rightarrow> (Some (Errorf ''checkdomain: '' err), s3)
                | (None, s3) \<Rightarrow> (None, s3))))"

definition checkdomain_CleanUp ::
  "'w cd_DNSProvider \<Rightarrow> string \<Rightarrow> string \<Rightarrow> string \<Rightarrow> string \<Rightarrow> 'w cd_state
    \<Rightarrow> error option \<times> 'w cd_state" where
  "checkdomain_CleanUp d domain token fqdn val s =
     (case getDomainIDByName d domain s of
        (Inl err, s1) \<Rightarrow> (Some (Errorf ''checkdomain: '' err), s1)
      | (Inr domainID, s1) \<Rightarrow>
          (case checkNameservers d domainID s1 of
             (Some err, s2) \<Rightarrow> (Some (Errorf ''checkdomain: '' err), s2)
           | (None, s2) \<Rightarrow>
               (case deleteTXTRecord d domainID fqdn val s2 of
                  (Some err, s3) \<Rightarrow> (Some (Errorf ''checkdomain: '' err), s3)
                | (None, (domainIDMapping, w)) \<Rightarrow> (None, (domainIDMapping(fqdn := None), w)))))"

subsection \<open>Concrete clients\<close>

text \<open>
  Clients with fixed replies, on a world with one element. Zone lookup answers
  \<open>example.com.\<close>, login and logout succeed.
\<close>

definition inwx_stub ::
  "(error + int) \<Rightarrow> (error + NameserverInfoResponse) \<Rightarrow> (int \<Rightarrow> error option)
    \<Rightarrow> unit inwx_client" where
  "inwx_stub created listed deleted =
     \<lparr>inwx_FindZoneByFqdn = (\<lambda>fqdn w. (Inr ''example.com.'', w)),
      Account_Login = (\<lambda>w. (None, w)),
      Account_Logout = (\<lambda>w. (None, w)),
      Nameservers_CreateRecord = (\<lambda>request w. (created, w)),
      Nameservers_Info = (\<lambda>request w. (listed, w)),
      Nameservers_DeleteRecord = (\<lambda>i w. (deleted i, w))\<rparr>"

definition hd_stub :: "(error + ZoneConfig) \<Rightarrow> (error + ZoneUpdateResponse) \<Rightarrow> unit hd_client" where
  "hd_stub zone updated =
     \<lparr>getZone = (\<lambda>request w. (zone, w)), updateZone = (\<lambda>request w. (updated, w))\<rparr>"

definition nc_stub ::
  "(nc_DNSRecord list \<times> error option) \<Rightarrow> error option \<Rightarrow> (error + int) \<Rightarrow> unit nc_client" where
  "nc_stub fetched updated idx =
     \<lparr>nc_FindZoneByFqdn = (\<lambda>fqdn w. (Inr ''example.com.'', w)),
      nc_Login = (\<lambda>w. (Inr ''sid'', w)),
      nc_Logout = (\<lambda>sid w. (None, w)),
      GetDNSRecords = (\<lambda>zone sid w. (fetched, w)),
      UpdateDNSRecord = (\<lambda>sid zone records w. (updated, w)),
      GetDNSRecordIdx = (\<lambda>records record. idx)\<rparr>"

definition cd_stub :: "unit cd_DNSProvider" where
  "cd_stub =
     \<lparr>cd_cfg_TTL = 300,
      getDomainIDByName = (\<lambda>name (m, w). (Inr 7, (m(name \<mapsto> 7), w))),
      checkNameservers = (\<lambda>i s. (None, s)),
      createRecord = (\<lambda>i r s. (None, s)),
      deleteTXTRecord = (\<lambda>i name v s. (None, s))\<rparr>"

text \<open>
  An inwx service that keeps the zone as a list of records, the world. Creating a record
  whose name, type and content are already there is answered with "Object exists";
  listing filters by name and type; deleting removes the record with the id.
\<close>

definition mem_fresh :: "NameserverRecord list \<Rightarrow> int" where
  "mem_fresh zone = fold max (map rec_ID zone) 0 + 1"

definition mem_inwx :: "(NameserverRecord list) inwx_client" where
  "mem_inwx =
     \<lparr>inwx_FindZoneByFqdn = (\<lambda>fqdn w. (Inr ''example.com.'', w)),
      Account_Login = (\<lambda>w. (None, w)),
      Account_Logout = (\<lambda>w. (None, w)),
      Nameservers_CreateRecord = (\<lambda>request w.
        if list_ex (\<lambda>r. rec_Name r = req_Name request \<and> rec_Type r = req_Type request
                        \<and> rec_Content r = req_Content request) w
        then (Inl (ErrorResponse 2302 ''Object exists'' []), w)
        else (Inr (mem_fresh w),
              w @ [\<lparr>rec_ID = mem_fresh w, rec_Name = req_Name request,
                     rec_Type = req_Type request, rec_Content = req_Content request,
                     rec_TTL = req_TTL request\<rparr>])),
      Nameservers_Info = (\<lambda>request w.
        (Inr \<lparr>Records = filter (\<lambda>r. rec_Name r = info_Name request
                                     \<and> rec_Type r = info_Type request) w\<rparr>, w)),
      Nameservers_DeleteRecord = (\<lambda>i w.
        if list_ex (\<lambda>r. rec_ID r = i) w then (None, filter (\<lambda>r. rec_ID r \<noteq> i) w)
        else (Some (ErrorResponse 2303 ''Object does not exist'' []), w))\<rparr>"

text \<open>
  A hostingde service that keeps the zone as a list of records, the world. An update
  first drops the records whose name, type and content are in the delete list, then
  appends the records of the add list, each with a new id and its content in quotes, and
  answers with the resulting records.
\<close>

definition mem_hd_fresh :: "hd_DNSRecord list \<Rightarrow> string" where
  "mem_hd_fresh zone = replicate (Suc (fold max (map (\<lambda>r. length (hd_ID r)) zone) 0)) CHR ''r''"

definition mem_hd_add :: "hd_DNSRecord \<Rightarrow> hd_DNSRecord list \<Rightarrow> hd_DNSRecord list" where
  "mem_hd_add r zone = zone @ [r\<lparr>hd_ID := mem_hd_fresh zone, hd_Content := quoted (hd_Content r)\<rparr>]"

definition mem_hd_listed :: "hd_DNSRecord list \<Rightarrow> hd_DNSRecord \<Rightarrow> bool" where
  "mem_hd_listed dels r =
     list_ex (\<lambda>x. hd_Name x = hd_Name r \<and> hd_Type x = hd_Type r \<and> hd_Content x = hd_Content r) dels"

definition mem_hd :: "(hd_DNSRecord list) hd_client" where
  "mem_hd =
     \<lparr>getZone = (\<lambda>request w. (Inr \<lparr>zc_ID = ''zone-1'', zc_Name = find_Value request\<rparr>, w)),
      updateZone = (\<lambda>request w.
        (let zone = fold mem_hd_add (RecordsToAdd request)
                      (filter (\<lambda>r. \<not> mem_hd_listed (RecordsToDelete request) r) w)
         in (Inr \<lparr>Response_Records = zone\<rparr>, zone)))\<rparr>"

definition hd_mem :: "(hd_DNSRecord list) hd_DNSProvider" where
  "hd_mem = \<lparr>hd_APIKey = ''key'', hd_ZoneName = ''example.com'', hd_cfg_TTL = 300, hd_client = mem_hd\<rparr>"

text \<open>
  Modelled from the spec: \<open>internal.GetDNSRecordIdx\<close> of the netcup client package is
  missing. The spec defines equality for cleanup matching as (name, value) equality, and
  has the cleanup fail when it cannot locate the record; so this is the index of the
  first record with the hostname and the destination of the record looked for, or an
  error.
\<close>

fun GetDNSRecordIdx_spec :: "nc_DNSRecord list \<Rightarrow> nc_DNSRecord \<Rightarrow> error + int" where
  "GetDNSRecordIdx_spec [] record = Inl (Failure ''RecordLookupError'')"
| "GetDNSRecordIdx_spec (r # rs) record =
     (if Hostname r = Hostname record \<and> Destination r = Destination record then Inr 0
      else (case GetDNSRecordIdx_spec rs record of
              Inl e \<Rightarrow> Inl e
            | Inr i \<Rightarrow> Inr (i + 1)))"

text \<open>
  A netcup service that keeps the zone as a list of records, the world. An update takes
  the submitted records in order: a record marked for deletion removes the stored records
  with its id, a record that is stored as it stands changes nothing, any other record is
  stored under a new id. The client looks records up with the function above.
\<close>

definition mem_nc_fresh :: "nc_DNSRecord list \<Rightarrow> int" where
  "mem_nc_fresh zone = fold max (map nc_ID zone) 0 + 1"

definition mem_nc_apply :: "nc_DNSRecord \<Rightarrow> nc_DNSRecord list \<Rightarrow> nc_DNSRecord list" where
  "mem_nc_apply r w =
     (if DeleteRecord r then filter (\<lambda>x. nc_ID x \<noteq> nc_ID r) w
      else if r \<in> set w then w
      else w @ [r\<lparr>nc_ID := mem_nc_fresh w\<rparr>])"

definition mem_nc :: "(nc_DNSRecord list) nc_client" where
  "mem_nc =
     \<lparr>nc_FindZoneByFqdn = (\<lambda>fqdn w. (Inr ''example.com.'', w)),
      nc_Login = (\<lambda>w. (Inr ''sid'', w)),
      nc_Logout = (\<lambda>sid w. (None, w)),
      GetDNSRecords = (\<lambda>zone sid w. ((w, None), w)),
      UpdateDNSRecord = (\<lambda>sid zone records w. (None, fold mem_nc_apply records w)),
      GetDNSRecordIdx = GetDNSRecordIdx_spec\<rparr>"

definition nc_mem :: "(nc_DNSRecord list) nc_DNSProvider" where
  "nc_mem = \<lparr>nc_cfg_TTL = 300, nc_client = mem_nc\<rparr>"

subsection \<open>Observations on call logs and results\<close>

text \<open>The ids of the deletions a call log records, in call order.\<close>

fun deleted_ids :: "inwx_call list \<Rightarrow> int list" where
  "deleted_ids [] = []"
| "deleted_ids (Call_DeleteRecord i _ # cs) = i # deleted_ids cs"
| "deleted_ids (c # cs) = deleted_ids cs"

text \<open>
  What the deletion loop leaves in \<open>lastErr\<close>, given its initial value and the failures
  of the deletions in call order.
\<close>

definition loop_result :: "error option \<Rightarrow> error list \<Rightarrow> error option" where
  "loop_result lastErr fs = (if fs = [] then lastErr else Some (Errorf ''inwx: '' (last fs)))"


text \<open>A result aggregates a list of failures when it carries each of them.\<close>

definition aggregates :: "error option \<Rightarrow> error list \<Rightarrow> bool" where
  "aggregates res failures =
     (case res of None \<Rightarrow> failures = []
      | Some err \<Rightarrow> list_all (\<lambda>e. e \<in> set (carried err)) failures)"

text \<open>A recorded call that fetched the netcup records and got an error.\<close>

fun nc_fetch_failed :: "nc_call \<Rightarrow> bool" where
  "nc_fetch_failed (Nc_GetDNSRecords _ _ (_, Some _)) = True"
| "nc_fetch_failed _ = False"

text \<open>The call returned an error value.\<close>

definition is_error :: "outcome \<Rightarrow> bool" where
  "is_error r = (case r of Returned (Some e) \<Rightarrow> True | _ \<Rightarrow> False)"

text \<open>
  \<open>Present\<close>, then \<open>CleanUp\<close> with the same arguments, on a world: the two results, and
  the world after each.
\<close>

definition inwx_round_trip ::
  "'w inwx_DNSProvider \<Rightarrow> string \<Rightarrow> string \<Rightarrow> string \<Rightarrow> string \<Rightarrow> 'w
    \<Rightarrow> error option \<times> error option \<times> 'w \<times> 'w" where
  "inwx_round_trip d domain token fqdn val zone =
     (case inwx_Present d domain token fqdn val (zone, []) of
        (e1, s1) \<Rightarrow>
          (case inwx_CleanUp d domain token fqdn val s1 of
             (e2, s2) \<Rightarrow> (e1, e2, fst s1, fst s2)))"

definition hostingde_round_trip ::
  "'w hd_DNSProvider \<Rightarrow> string \<Rightarrow> string \<Rightarrow> string \<Rightarrow> string \<Rightarrow> (string \<rightharpoonup> string) \<Rightarrow> 'w
    \<Rightarrow> error option \<times> error option \<times> 'w \<times> 'w" where
  "hostingde_round_trip d domain token fqdn val recordIDs zone =
     (case hostingde_Present d domain token fqdn val recordIDs (zone, []) of
        (e1, recordIDs1, s1) \<Rightarrow>
          (case hostingde_CleanUp d domain token fqdn val recordIDs1 s1 of
             (e2, recordIDs2, s2) \<Rightarrow> (e1, e2, fst s1, fst s2)))"

definition netcup_round_trip ::
  "'w nc_DNSProvider \<Rightarrow> string \<Rightarrow> string \<Rightarrow> string \<Rightarrow> string \<Rightarrow> 'w
    \<Rightarrow> outcome \<times> outcome \<times> 'w \<times> 'w" where
  "netcup_round_trip d domainName token fqdn val zone =
     (case netcup_Present d domainName token fqdn val (zone, []) of
        (e1, s1) \<Rightarrow>
          (case netcup_CleanUp d domainName token fqdn val s1 of
             (e2, s2) \<Rightarrow> (e1, e2, fst s1, fst s2)))"

subsection \<open>Concrete providers\<close>



definition inwx_exists :: "unit inwx_DNSProvider" where
  "inwx_exists = \<lparr>inwx_TTL = 300,
     inwx_client = inwx_stub (Inl (ErrorResponse 2302 ''Object exists'' [])) (Inr \<lparr>Records = []\<rparr>) (\<lambda>i. None)\<rparr>"

definition inwx_two_failures :: "unit inwx_DNSProvider" where
  "inwx_two_failures = \<lparr>inwx_TTL = 300,
     inwx_client = inwx_stub (Inr 1)
       (Inr \<lparr>Records =
          [\<lparr>rec_ID = 1, rec_Name = ''_acme-challenge.example.com'', rec_Type = ''TXT'',
            rec_Content = ''abc123'', rec_TTL = 300\<rparr>,
           \<lparr>rec_ID = 2, rec_Name = ''_acme-challenge.example.com'', rec_Type = ''TXT'',
            rec_Content = ''abc123'', rec_TTL = 300\<rparr>]\<rparr>)
       (\<lambda>i. if i = 1 then Some (Failure ''first'') else Some (Failure ''second''))\<rparr>"

definition hd_unconfirmed :: "unit hd_DNSProvider" where
  "hd_unconfirmed = \<lparr>hd_APIKey = ''key'', hd_ZoneName = ''example.com'', hd_cfg_TTL = 300,
     hd_client = hd_stub (Inr \<lparr>zc_ID = ''z1'', zc_Name = ''example.com''\<rparr>) (Inr \<lparr>Response_Records = []\<rparr>)\<rparr>"

definition hd_confirming :: "unit hd_DNSProvider" where
  "hd_confirming = \<lparr>hd_APIKey = ''key'', hd_ZoneName = ''example.com'', hd_cfg_TTL = 300,
     hd_client = hd_stub (Inr \<lparr>zc_ID = ''z1'', zc_Name = ''example.com''\<rparr>)
       (Inr \<lparr>Response_Records =
          [\<lparr>hd_ID = ''r42'', hd_Name = ''_acme-challenge.example.com'', hd_Type = ''TXT'',
            hd_Content = quoted ''abc123'', hd_TTL = 300\<rparr>]\<rparr>)\<rparr>"

definition hd_unreachable :: "unit hd_DNSProvider" where
  "hd_unreachable = \<lparr>hd_APIKey = ''key'', hd_ZoneName = ''example.com'', hd_cfg_TTL = 300,
     hd_client = hd_stub (Inl (Failure ''zone fetch failed'')) (Inr \<lparr>Response_Records = []\<rparr>)\<rparr>"

definition nc_fetch_fails :: "unit nc_DNSProvider" where
  "nc_fetch_fails = \<lparr>nc_cfg_TTL = 300,
     nc_client = nc_stub ([], Some (Failure ''fetch failed'')) None (Inl (Failure ''no DNS Record found''))\<rparr>"

definition cd_stub_state :: "unit cd_state" where
  "cd_stub_state = ([''_acme-challenge.example.com.'' \<mapsto> 7], ())"

definition inwx_two_values :: "unit inwx_DNSProvider" where
  "inwx_two_values = \<lparr>inwx_TTL = 300,
     inwx_client = inwx_stub (Inr 1)
       (Inr \<lparr>Records =
          [\<lparr>rec_ID = 1, rec_Name = ''_acme-challenge.example.com'', rec_Type = ''TXT'',
            rec_Content = ''abc123'', rec_TTL = 300\<rparr>,
           \<lparr>rec_ID = 2, rec_Name = ''_acme-challenge.example.com'', rec_Type = ''TXT'',
            rec_Content = ''other-value'', rec_TTL = 300\<rparr>]\<rparr>)
       (\<lambda>i. None)\<rparr>"

definition inwx_mem :: "(NameserverRecord list) inwx_DNSProvider" where
  "inwx_mem = \<lparr>inwx_TTL = 300, inwx_client = mem_inwx\<rparr>"

definition zone_other :: "NameserverRecord list" where
  "zone_other = [\<lparr>rec_ID = 1, rec_Name = ''_acme-challenge.example.com'', rec_Type = ''TXT'',
                  rec_Content = ''other-value'', rec_TTL = 300\<rparr>]"

definition zone_same :: "NameserverRecord list" where
  "zone_same = [\<lparr>rec_ID = 1, rec_Name = ''_acme-challenge.example.com'', rec_Type = ''TXT'',
                  rec_Content = ''abc123'', rec_TTL = 300\<rparr>]"

definition zone_www :: "NameserverRecord list" where
  "zone_www = [\<lparr>rec_ID = 5, rec_Name = ''www.example.com'', rec_Type = ''A'',
                  rec_Content = ''192.0.2.1'', rec_TTL = 3600\<rparr>]"

definition hd_zone_www :: "hd_DNSRecord list" where
  "hd_zone_www = [\<lparr>hd_ID = ''a1'', hd_Name = ''www.example.com'', hd_Type = ''A'',
                  hd_Content = ''192.0.2.1'', hd_TTL = 3600\<rparr>]"

definition nc_zone_www :: "nc_DNSRecord list" where
  "nc_zone_www = [\<lparr>nc_ID = 5, Hostname = ''www'', RecordType = ''A'',
                   Destination = ''192.0.2.1'', DeleteRecord = False, nc_TTL = 3600\<rparr>]"

definition nc_zone_same :: "nc_DNSRecord list" where
  "nc_zone_same = [\<lparr>nc_ID = 5, Hostname = ''_acme-challenge'', RecordType = ''TXT'',
                   Destination = ''abc123'', DeleteRecord = False, nc_TTL = 300\<rparr>]"

definition hd_zone_same :: "hd_DNSRecord list" where
  "hd_zone_same = [\<lparr>hd_ID = ''a1'', hd_Name = ''_acme-challenge.example.com'', hd_Type = ''TXT'',
                  hd_Content = quoted ''abc123'', hd_TTL = 300\<rparr>]"

section \<open>Properties\<close>

subsection \<open>The deletion loop of inwx\<close>

lemma delete_failures_append: "delete_failures (xs @ ys) = delete_failures xs @ delete_failures ys"
  by (induction xs rule: delete_failures.induct) simp_all

lemma deleted_ids_append: "deleted_ids (xs @ ys) = deleted_ids xs @ deleted_ids ys"
  by (induction xs rule: deleted_ids.induct) simp_all

lemma inwx_delete_loop_log:
  "\<exists>new. snd (snd (inwx_delete_loop d rs lastErr s)) = snd s @ new
      \<and> deleted_ids new = map rec_ID rs
      \<and> filter is_inwx_logout new = []
      \<and> fst (inwx_delete_loop d rs lastErr s) = loop_result lastErr (delete_failures new)"
proof (induction rs arbitrary: lastErr s)
  case Nil
  show ?case by (simp add: loop_result_def)
next
  case (Cons r rs)
  obtain rep w' where call: "Nameservers_DeleteRecord (inwx_client d) (rec_ID r) (fst s) = (rep, w')"
    by (cases "Nameservers_DeleteRecord (inwx_client d) (rec_ID r) (fst s)")
  let ?s' = "(w', snd s @ [Call_DeleteRecord (rec_ID r) rep])"
  show ?case
  proof (cases rep)
    case None
    from Cons.IH [of lastErr ?s'] obtain new where
      new: "snd (snd (inwx_delete_loop d rs lastErr ?s')) = snd ?s' @ new"
        "deleted_ids new = map rec_ID rs" "filter is_inwx_logout new = []"
        "fst (inwx_delete_loop d rs lastErr ?s') = loop_result lastErr (delete_failures new)"
      by blast
    show ?thesis
      apply (rule exI [of _ "Call_DeleteRecord (rec_ID r) None # new"])
      using new call None by (simp add: invoke_def)
  next
    case (Some e)
    from Cons.IH [of "Some (Errorf ''inwx: '' e)" ?s'] obtain new where
      new: "snd (snd (inwx_delete_loop d rs (Some (Errorf ''inwx: '' e)) ?s')) = snd ?s' @ new"
        "deleted_ids new = map rec_ID rs" "filter is_inwx_logout new = []"
        "fst (inwx_delete_loop d rs (Some (Errorf ''inwx: '' e)) ?s')
           = loop_result (Some (Errorf ''inwx: '' e)) (delete_failures new)"
      by blast
    show ?thesis
      apply (rule exI [of _ "Call_DeleteRecord (rec_ID r) (Some e) # new"])
      using new call Some by (simp add: invoke_def loop_result_def)
  qed
qed

subsection \<open>Session bracket\<close>











subsection \<open>inwx: create and delete\<close>

text \<open>
  Claim C4. In inwx, when the create call of \<open>Present\<close> fails with an error response
  whose message is "Object exists", \<open>Present\<close> returns \<open>nil\<close>.
\<close>

theorem inwx_Present_object_exists:
  assumes zone: "inwx_FindZoneByFqdn (inwx_client d) fqdn (fst s) = (Inr authZone, w1)"
    and login: "Account_Login (inwx_client d) w1 = (None, w2)"
    and create: "Nameservers_CreateRecord (inwx_client d)
        \<lparr>req_Domain = UnFqdn authZone, req_Name = UnFqdn fqdn, req_Type = ''TXT'',
         req_Content = val, req_TTL = inwx_TTL d\<rparr> w2
      = (Inl (ErrorResponse c ''Object exists'' r), w3)"
  shows "fst (inwx_Present d domain token fqdn val s) = None"
  using assms
  by (simp add: inwx_Present_def inwx_Present_body_def invoke_def split: prod.splits)

theorem inwx_Present_object_exists_witness:
  "fst (inwx_Present inwx_exists ''example.com'' ''token'' ''_acme-challenge.example.com.''
      ''abc123'' ((), [])) = None"
  by (rule inwx_Present_object_exists [where ?w1.0 = "()" and ?w2.0 = "()" and ?w3.0 = "()"
        and c = 2302 and r = "[]" and authZone = "''example.com.''"])
     (simp_all add: inwx_exists_def inwx_stub_def)

text \<open>
  Claim C9, as amended. In \<open>CleanUp\<close> of inwx, once the zone lookup, the login and the
  listing have succeeded, one deletion is attempted for every listed record, in order,
  whether or not earlier deletions failed; the call returns \<open>nil\<close> when no deletion
  failed, and otherwise the error of the last failed deletion alone, wrapped with
  \<open>inwx: \<close>.
\<close>

theorem inwx_CleanUp_deletes_all_reports_last:
  assumes zone: "inwx_FindZoneByFqdn (inwx_client d) fqdn (fst s) = (Inr authZone, w1)"
    and login: "Account_Login (inwx_client d) w1 = (None, w2)"
    and info: "Nameservers_Info (inwx_client d)
        \<lparr>info_Domain = UnFqdn authZone, info_Name = UnFqdn fqdn, info_Type = ''TXT''\<rparr> w2
      = (Inr response, w3)"
  shows "\<exists>new. snd (snd (inwx_CleanUp d domain token fqdn val s)) = snd s @ new
      \<and> deleted_ids new = map rec_ID (Records response)
      \<and> fst (inwx_CleanUp d domain token fqdn val s) = loop_result None (delete_failures new)"
proof -
  let ?rq = "\<lparr>info_Domain = UnFqdn authZone, info_Name = UnFqdn fqdn, info_Type = ''TXT''\<rparr>"
  let ?pre = "[Call_FindZoneByFqdn fqdn (Inr authZone), Call_Login None, Call_Info ?rq (Inr response)]"
  let ?s3 = "(w3, snd s @ ?pre)"
  obtain res s4 where loop: "inwx_delete_loop d (Records response) None ?s3 = (res, s4)"
    by (cases "inwx_delete_loop d (Records response) None ?s3")
  from inwx_delete_loop_log [of d "Records response" None ?s3] loop obtain mid where
    mid: "snd s4 = snd ?s3 @ mid" "deleted_ids mid = map rec_ID (Records response)"
      "res = loop_result None (delete_failures mid)" by auto
  obtain errL w5 where lo: "Account_Logout (inwx_client d) (fst s4) = (errL, w5)"
    by (cases "Account_Logout (inwx_client d) (fst s4)")
  have run: "inwx_CleanUp d domain token fqdn val s = (res, (w5, snd s @ ?pre @ mid @ [Call_Logout errL]))"
    using zone login info loop mid(1) lo
    by (simp add: inwx_CleanUp_def inwx_CleanUp_body_def invoke_def)
  show ?thesis
    by (rule exI [of _ "?pre @ mid @ [Call_Logout errL]"])
       (simp add: run mid deleted_ids_append delete_failures_append)
qed

theorem inwx_CleanUp_deletes_all_reports_last_witness:
  "\<exists>new. snd (snd (inwx_CleanUp inwx_two_failures ''example.com'' ''token''
                ''_acme-challenge.example.com.'' ''abc123'' ((), []))) = snd ((), []) @ new
      \<and> deleted_ids new = [1, 2]
      \<and> fst (inwx_CleanUp inwx_two_failures ''example.com'' ''token''
                ''_acme-challenge.example.com.'' ''abc123'' ((), []))
          = loop_result None (delete_failures new)"
  using inwx_CleanUp_deletes_all_reports_last [of inwx_two_failures
      "''_acme-challenge.example.com.''" "((), [])" "''example.com.''" "()" "()" _ "()"
      "''example.com''" "''token''" "''abc123''"]
  by (simp add: inwx_two_failures_def inwx_stub_def)

text \<open>
  Claim C9 as stated fails: with two listed records whose deletions both fail, the
  returned error carries the second failure and not the first.
\<close>

theorem inwx_CleanUp_aggregates_counterexample:
  "\<not> aggregates
      (fst (inwx_CleanUp inwx_two_failures ''example.com'' ''token''
              ''_acme-challenge.example.com.'' ''abc123'' ((), [])))
      (delete_failures (snd (snd (inwx_CleanUp inwx_two_failures ''example.com'' ''token''
              ''_acme-challenge.example.com.'' ''abc123'' ((), [])))))"
  by (simp add: aggregates_def inwx_CleanUp_def inwx_CleanUp_body_def invoke_def
      inwx_two_failures_def inwx_stub_def)

text \<open>
  \<open>CleanUp\<close> of inwx never reads its argument \<open>value\<close>.
\<close>

lemma inwx_CleanUp_ignores_value:
  "inwx_CleanUp d domain token fqdn val s = inwx_CleanUp d domain token fqdn val' s"
  by (simp add: inwx_CleanUp_def)

text \<open>
  Claim C8, evaluated. The listing returns two TXT records under the challenge name, one
  with the requested value and one with another value; \<open>CleanUp\<close> for the requested value
  deletes both, where the claim has only the record with the requested value selected.
\<close>

theorem inwx_CleanUp_deletes_other_value:
  "fst (inwx_CleanUp inwx_two_values ''example.com'' ''token'' ''_acme-challenge.example.com.''
          ''abc123'' ((), [])) = None
   \<and> deleted_ids (snd (snd (inwx_CleanUp inwx_two_values ''example.com'' ''token''
          ''_acme-challenge.example.com.'' ''abc123'' ((), [])))) = [1, 2]"
  by (simp add: inwx_CleanUp_def inwx_CleanUp_body_def invoke_def inwx_two_values_def inwx_stub_def)

text \<open>
  The same on the in-memory service: with a zone that already holds a TXT record of
  another value under the challenge name, \<open>Present\<close> and then \<open>CleanUp\<close> both return
  \<open>nil\<close>, and the zone ends empty.
\<close>

lemma inwx_round_trip_removes_other_record:
  "inwx_round_trip inwx_mem ''example.com'' ''token'' ''_acme-challenge.example.com.'' ''abc123''
      zone_other
   = (None, None,
      zone_other @ [\<lparr>rec_ID = 2, rec_Name = ''_acme-challenge.example.com'', rec_Type = ''TXT'',
                     rec_Content = ''abc123'', rec_TTL = 300\<rparr>],
      [])"
  by (simp add: inwx_round_trip_def inwx_Present_def inwx_Present_body_def inwx_CleanUp_def
      inwx_CleanUp_body_def invoke_def inwx_mem_def mem_inwx_def mem_fresh_def zone_other_def
      UnFqdn_def Let_def)

subsection \<open>hostingde: the record-ID map\<close>

lemma hd_store_ids_no_match:
  "\<not> list_ex (\<lambda>r. hd_Name r = UnFqdn fqdn \<and> hd_Content r = quoted val) rs
    \<Longrightarrow> hd_store_ids rs fqdn val recordIDs = recordIDs"
  by (induction rs arbitrary: recordIDs) auto

text \<open>
  Claim C10. In hostingde, when the record-ID map already holds a non-empty id for the
  fqdn, the zone fetch and the zone update succeed, and no record of the response matches
  the name and the quoted value, \<open>Present\<close> returns \<open>nil\<close> and leaves the map as it was.
\<close>

theorem hostingde_Present_stale_id_succeeds:
  assumes zone: "getZone (hd_client d) (zonesFind d) (fst s) = (Inr zoneConfig, w1)"
    and update: "updateZone (hd_client d)
        \<lparr>upd_AuthToken = hd_APIKey d, upd_ZoneConfig = zoneConfig\<lparr>zc_Name := hd_ZoneName d\<rparr>,
         RecordsToAdd = [\<lparr>hd_ID = [], hd_Name = UnFqdn fqdn, hd_Type = ''TXT'',
                          hd_Content = val, hd_TTL = hd_cfg_TTL d\<rparr>],
         RecordsToDelete = []\<rparr> w1 = (Inr resp, w2)"
    and unconfirmed: "\<not> list_ex (\<lambda>r. hd_Name r = UnFqdn fqdn \<and> hd_Content r = quoted val)
        (Response_Records resp)"
    and held: "recordIDs fqdn = Some rid" "rid \<noteq> []"
  shows "fst (hostingde_Present d domain token fqdn val recordIDs s) = None
       \<and> fst (snd (hostingde_Present d domain token fqdn val recordIDs s)) = recordIDs"
  using assms
  by (simp add: hostingde_Present_def invoke_def Let_def hd_store_ids_no_match map_index_def)

theorem hostingde_Present_stale_id_succeeds_witness:
  "fst (hostingde_Present hd_unconfirmed ''example.com'' ''token'' ''_acme-challenge.example.com.''
         ''abc123'' [''_acme-challenge.example.com.'' \<mapsto> ''r7''] ((), [])) = None
   \<and> fst (snd (hostingde_Present hd_unconfirmed ''example.com'' ''token'' ''_acme-challenge.example.com.''
         ''abc123'' [''_acme-challenge.example.com.'' \<mapsto> ''r7''] ((), [])))
      = [''_acme-challenge.example.com.'' \<mapsto> ''r7'']"
  by (rule hostingde_Present_stale_id_succeeds [where ?w1.0 = "()" and ?w2.0 = "()"
        and zoneConfig = "\<lparr>zc_ID = ''z1'', zc_Name = ''example.com''\<rparr>"
        and resp = "\<lparr>Response_Records = []\<rparr>" and rid = "''r7''"])
     (simp_all add: hd_unconfirmed_def hd_stub_def)

text \<open>
  When the map holds no non-empty id for the fqdn, the same response makes \<open>Present\<close>
  return the error.
\<close>

lemma hostingde_Present_unconfirmed_fresh:
  assumes zone: "getZone (hd_client d) (zonesFind d) (fst s) = (Inr zoneConfig, w1)"
    and update: "updateZone (hd_client d)
        \<lparr>upd_AuthToken = hd_APIKey d, upd_ZoneConfig = zoneConfig\<lparr>zc_Name := hd_ZoneName d\<rparr>,
         RecordsToAdd = [\<lparr>hd_ID = [], hd_Name = UnFqdn fqdn, hd_Type = ''TXT'',
                          hd_Content = val, hd_TTL = hd_cfg_TTL d\<rparr>],
         RecordsToDelete = []\<rparr> w1 = (Inr resp, w2)"
    and unconfirmed: "\<not> list_ex (\<lambda>r. hd_Name r = UnFqdn fqdn \<and> hd_Content r = quoted val)
        (Response_Records resp)"
    and fresh: "map_index recordIDs fqdn = []"
  shows "fst (hostingde_Present d domain token fqdn val recordIDs s)
      = Some (Failure (''hostingde: error getting ID of just created record, for domain '' @ domain))"
  using assms
  by (simp add: hostingde_Present_def invoke_def Let_def hd_store_ids_no_match)

text \<open>
  Claim C5, evaluated. The zone update succeeds with a response that holds no record.
  With an id left in the map by an earlier \<open>Present\<close> for the fqdn, \<open>Present\<close> returns
  \<open>nil\<close>, where the claim has it return an error; with an empty map it returns the error.
\<close>

theorem hostingde_Present_unconfirmed_evaluation:
  "fst (hostingde_Present hd_unconfirmed ''example.com'' ''token'' ''_acme-challenge.example.com.''
         ''def456'' [''_acme-challenge.example.com.'' \<mapsto> ''r7''] ((), [])) = None
   \<and> fst (hostingde_Present hd_unconfirmed ''example.com'' ''token'' ''_acme-challenge.example.com.''
         ''def456'' Map.empty ((), []))
      = Some (Failure ''hostingde: error getting ID of just created record, for domain example.com'')"
  by (simp add: hostingde_Present_def invoke_def Let_def map_index_def hd_unconfirmed_def hd_stub_def)

lemma map_index_nonempty: "map_index m k \<noteq> [] \<Longrightarrow> \<exists>rid. m k = Some rid \<and> rid \<noteq> []"
  by (cases "m k") (simp_all add: map_index_def)

lemma hostingde_Present_success_entry:
  assumes "fst (hostingde_Present d domain token fqdn val recordIDs s) = None"
  shows "\<exists>rid. fst (snd (hostingde_Present d domain token fqdn val recordIDs s)) fqdn = Some rid
      \<and> rid \<noteq> []"
proof -
  obtain z w1 where zone: "getZone (hd_client d) (zonesFind d) (fst s) = (z, w1)"
    by (cases "getZone (hd_client d) (zonesFind d) (fst s)")
  show ?thesis
  proof (cases z)
    case (Inl e)
    with zone assms show ?thesis by (simp add: hostingde_Present_def invoke_def)
  next
    case (Inr zoneConfig)
    let ?req = "\<lparr>upd_AuthToken = hd_APIKey d, upd_ZoneConfig = zoneConfig\<lparr>zc_Name := hd_ZoneName d\<rparr>,
         RecordsToAdd = [\<lparr>hd_ID = [], hd_Name = UnFqdn fqdn, hd_Type = ''TXT'',
                          hd_Content = val, hd_TTL = hd_cfg_TTL d\<rparr>],
         RecordsToDelete = []\<rparr>"
    obtain u w2 where upd: "updateZone (hd_client d) ?req w1 = (u, w2)"
      by (cases "updateZone (hd_client d) ?req w1")
    show ?thesis
    proof (cases u)
      case (Inl e)
      with zone Inr upd assms show ?thesis
        by (simp add: hostingde_Present_def invoke_def Let_def)
    next
      case (Inr resp)
      with zone \<open>z = Inr zoneConfig\<close> upd assms
      have "map_index (hd_store_ids (Response_Records resp) fqdn val recordIDs) fqdn \<noteq> []"
        by (simp add: hostingde_Present_def invoke_def Let_def split: if_splits)
      moreover from zone \<open>z = Inr zoneConfig\<close> upd Inr this
      have "fst (snd (hostingde_Present d domain token fqdn val recordIDs s))
          = hd_store_ids (Response_Records resp) fqdn val recordIDs"
        by (simp add: hostingde_Present_def invoke_def Let_def)
      ultimately show ?thesis using map_index_nonempty by metis
    qed
  qed
qed

lemma hostingde_CleanUp_success_no_entry:
  assumes "fst (hostingde_CleanUp d domain token fqdn val recordIDs s) = None"
  shows "fst (snd (hostingde_CleanUp d domain token fqdn val recordIDs s)) fqdn = None"
  using assms
  by (simp add: hostingde_CleanUp_def invoke_def Let_def split: prod.splits sum.splits)

lemma checkdomain_CleanUp_success_no_entry:
  assumes "fst (checkdomain_CleanUp d domain token fqdn val s) = None"
  shows "fst (snd (checkdomain_CleanUp d domain token fqdn val s)) fqdn = None"
  using assms
  by (auto simp add: checkdomain_CleanUp_def split: prod.splits sum.splits option.splits)

text \<open>
  Claim C7, as amended. In hostingde, after a \<open>Present\<close> that returns \<open>nil\<close> the map
  of record ids holds a non-empty id under the fqdn, and after a \<open>CleanUp\<close> that returns
  \<open>nil\<close> the map holds nothing under the fqdn. In checkdomain, after a \<open>CleanUp\<close> that
  returns \<open>nil\<close> the map holds nothing under the fqdn; \<open>Present\<close> writes nothing to the
  map itself: when \<open>getDomainIDByName\<close>, \<open>checkNameservers\<close> and \<open>createRecord\<close>
  succeed, it returns \<open>nil\<close> and leaves the provider's state as \<open>createRecord\<close> left it.
\<close>

theorem cache_entry_after_Present_and_CleanUp:
  "(fst (hostingde_Present d domain token fqdn val recordIDs s) = None
      \<longrightarrow> (\<exists>rid. fst (snd (hostingde_Present d domain token fqdn val recordIDs s)) fqdn = Some rid
            \<and> rid \<noteq> []))
   \<and> (fst (hostingde_CleanUp d domain token fqdn val recordIDs' s') = None
      \<longrightarrow> fst (snd (hostingde_CleanUp d domain token fqdn val recordIDs' s')) fqdn = None)
   \<and> (fst (checkdomain_CleanUp c domain token fqdn val t) = None
      \<longrightarrow> fst (snd (checkdomain_CleanUp c domain token fqdn val t)) fqdn = None)
   \<and> (getDomainIDByName c domain t = (Inr domainID, t1)
      \<longrightarrow> checkNameservers c domainID t1 = (None, t2)
      \<longrightarrow> createRecord c domainID
            \<lparr>cd_Name = fqdn, cd_TTL = cd_cfg_TTL c, cd_Type = ''TXT'', cd_Value = val\<rparr> t2 = (None, t3)
      \<longrightarrow> checkdomain_Present c domain token fqdn val t = (None, t3))"
proof -
  have "checkdomain_Present c domain token fqdn val t = (None, t3)"
    if "getDomainIDByName c domain t = (Inr domainID, t1)"
      and "checkNameservers c domainID t1 = (None, t2)"
      and "createRecord c domainID
            \<lparr>cd_Name = fqdn, cd_TTL = cd_cfg_TTL c, cd_Type = ''TXT'', cd_Value = val\<rparr> t2 = (None, t3)"
    using that by (simp add: checkdomain_Present_def)
  then show ?thesis
    using hostingde_Present_success_entry hostingde_CleanUp_success_no_entry
      checkdomain_CleanUp_success_no_entry by blast
qed

theorem cache_entry_after_Present_and_CleanUp_witness:
  "fst (hostingde_Present hd_confirming ''example.com'' ''token'' ''_acme-challenge.example.com.''
          ''abc123'' Map.empty ((), [])) = None
   \<and> fst (snd (hostingde_Present hd_confirming ''example.com'' ''token''
          ''_acme-challenge.example.com.'' ''abc123'' Map.empty ((), [])))
        ''_acme-challenge.example.com.'' = Some ''r42''
   \<and> fst (hostingde_CleanUp hd_confirming ''example.com'' ''token'' ''_acme-challenge.example.com.''
          ''abc123'' [''_acme-challenge.example.com.'' \<mapsto> ''r42''] ((), [])) = None
   \<and> fst (snd (hostingde_CleanUp hd_confirming ''example.com'' ''token''
          ''_acme-challenge.example.com.'' ''abc123''
          [''_acme-challenge.example.com.'' \<mapsto> ''r42''] ((), [])))
        ''_acme-challenge.example.com.'' = None
   \<and> fst (checkdomain_CleanUp cd_stub ''example.com'' ''token'' ''_acme-challenge.example.com.''
          ''abc123'' cd_stub_state) = None
   \<and> fst (snd (checkdomain_CleanUp cd_stub ''example.com'' ''token''
          ''_acme-challenge.example.com.'' ''abc123'' cd_stub_state))
        ''_acme-challenge.example.com.'' = None
   \<and> checkdomain_Present cd_stub ''example.com'' ''token'' ''_acme-challenge.example.com.''
          ''abc123'' cd_stub_state
       = (None, ((fst cd_stub_state)(''example.com'' \<mapsto> 7), ()))"
proof -
  have p: "fst (hostingde_Present hd_confirming ''example.com'' ''token''
      ''_acme-challenge.example.com.'' ''abc123'' Map.empty ((), [])) = None"
    by (simp add: hostingde_Present_def invoke_def Let_def map_index_def hd_confirming_def
        hd_stub_def UnFqdn_def)
  have v: "fst (snd (hostingde_Present hd_confirming ''example.com'' ''token''
      ''_acme-challenge.example.com.'' ''abc123'' Map.empty ((), [])))
        ''_acme-challenge.example.com.'' = Some ''r42''"
    by (simp add: hostingde_Present_def invoke_def Let_def map_index_def hd_confirming_def
        hd_stub_def UnFqdn_def)
  have c: "fst (hostingde_CleanUp hd_confirming ''example.com'' ''token''
      ''_acme-challenge.example.com.'' ''abc123''
      [''_acme-challenge.example.com.'' \<mapsto> ''r42''] ((), [])) = None"
    by (simp add: hostingde_CleanUp_def invoke_def Let_def hd_confirming_def hd_stub_def)
  have k: "fst (checkdomain_CleanUp cd_stub ''example.com'' ''token''
      ''_acme-challenge.example.com.'' ''abc123'' cd_stub_state) = None"
    by (simp add: checkdomain_CleanUp_def cd_stub_def cd_stub_state_def)
  have g1: "getDomainIDByName cd_stub ''example.com'' cd_stub_state
      = (Inr 7, ((fst cd_stub_state)(''example.com'' \<mapsto> 7), ()))"
    by (simp add: cd_stub_def cd_stub_state_def)
  have g2: "checkNameservers cd_stub 7 ((fst cd_stub_state)(''example.com'' \<mapsto> 7), ())
      = (None, ((fst cd_stub_state)(''example.com'' \<mapsto> 7), ()))"
    by (simp add: cd_stub_def)
  have g3: "createRecord cd_stub 7
      \<lparr>cd_Name = ''_acme-challenge.example.com.'', cd_TTL = cd_cfg_TTL cd_stub, cd_Type = ''TXT'',
       cd_Value = ''abc123''\<rparr> ((fst cd_stub_state)(''example.com'' \<mapsto> 7), ())
      = (None, ((fst cd_stub_state)(''example.com'' \<mapsto> 7), ()))"
    by (simp add: cd_stub_def)
  from p v c k g1 g2 g3
    cache_entry_after_Present_and_CleanUp [of hd_confirming "''example.com''" "''token''"
      "''_acme-challenge.example.com.''" "''abc123''" Map.empty "((), [])"
      "[''_acme-challenge.example.com.'' \<mapsto> ''r42'']" "((), [])" cd_stub cd_stub_state
      7 "((fst cd_stub_state)(''example.com'' \<mapsto> 7), ())"
      "((fst cd_stub_state)(''example.com'' \<mapsto> 7), ())"
      "((fst cd_stub_state)(''example.com'' \<mapsto> 7), ())"]
  show ?thesis by blast
qed

text \<open>
  Claim C7 as stated fails for checkdomain: with a \<open>getDomainIDByName\<close> that caches the
  id under the domain name it is asked for, \<open>Present\<close> returns \<open>nil\<close> and the map holds
  nothing under the fqdn.
\<close>

theorem checkdomain_Present_no_entry_counterexample:
  "fst (checkdomain_Present cd_stub ''example.com'' ''token'' ''_acme-challenge.example.com.''
          ''abc123'' (Map.empty, ())) = None
   \<and> fst (snd (checkdomain_Present cd_stub ''example.com'' ''token''
          ''_acme-challenge.example.com.'' ''abc123'' (Map.empty, ())))
        ''_acme-challenge.example.com.'' = None"
  by (simp add: checkdomain_Present_def cd_stub_def)

subsection \<open>Failure of the zone fetch\<close>

text \<open>
  Claim C6, as amended. In hostingde, when fetching the zone configuration fails,
  \<open>Present\<close> returns that error wrapped with \<open>hostingde: \<close>, leaves the map alone and
  makes no other call. In netcup, when fetching the records fails after a successful
  login, \<open>Present\<close> goes on: it submits the records that came with the error followed by
  the new record, and returns \<open>nil\<close> or the wrapped error of that submission.
\<close>

theorem fetch_failure_hostingde_stops_netcup_submits:
  assumes hd_fetch: "getZone (hd_client d) (zonesFind d) (fst s) = (Inl e, w1)"
    and nc_zone: "nc_FindZoneByFqdn (nc_client n) fqdn (fst t) = (Inr zone, v1)"
    and nc_login: "nc_Login (nc_client n) v1 = (Inr sessionID, v2)"
    and nc_fetch: "GetDNSRecords (nc_client n) (UnFqdn zone) sessionID v2 = ((records, Some e'), v3)"
    and nc_update: "UpdateDNSRecord (nc_client n) sessionID (UnFqdn zone)
        (records @ [\<lparr>nc_ID = 0, Hostname = strings_Replace1 fqdn (CHR ''.'' # zone) [],
                      RecordType = ''TXT'', Destination = val, DeleteRecord = False,
                      nc_TTL = nc_cfg_TTL n\<rparr>]) v3 = (u, v4)"
    and nc_logout: "nc_Logout (nc_client n) sessionID v4 = (errL, v5)"
  shows "hostingde_Present d domain token fqdn val recordIDs s
        = (Some (Errorf ''hostingde: '' e), recordIDs,
           (w1, snd s @ [Call_getZone (zonesFind d) (Inl e)]))
       \<and> netcup_Present n domain token fqdn val t
        = ((case u of None \<Rightarrow> Returned None
            | Some e'' \<Rightarrow> Returned (Some (Errorf ''netcup: failed to add TXT-Record: '' e''))),
           (v5, snd t @
             [Nc_FindZoneByFqdn fqdn (Inr zone), Nc_Login (Inr sessionID),
              Nc_GetDNSRecords (UnFqdn zone) sessionID (records, Some e'),
              Nc_UpdateDNSRecord sessionID (UnFqdn zone)
                (records @ [\<lparr>nc_ID = 0, Hostname = strings_Replace1 fqdn (CHR ''.'' # zone) [],
                      RecordType = ''TXT'', Destination = val, DeleteRecord = False,
                      nc_TTL = nc_cfg_TTL n\<rparr>]) u,
              Nc_Logout sessionID errL]))"
proof
  show "hostingde_Present d domain token fqdn val recordIDs s
        = (Some (Errorf ''hostingde: '' e), recordIDs,
           (w1, snd s @ [Call_getZone (zonesFind d) (Inl e)]))"
    using hd_fetch by (simp add: hostingde_Present_def invoke_def)
next
  show "netcup_Present n domain token fqdn val t
        = ((case u of None \<Rightarrow> Returned None
            | Some e'' \<Rightarrow> Returned (Some (Errorf ''netcup: failed to add TXT-Record: '' e''))),
           (v5, snd t @
             [Nc_FindZoneByFqdn fqdn (Inr zone), Nc_Login (Inr sessionID),
              Nc_GetDNSRecords (UnFqdn zone) sessionID (records, Some e'),
              Nc_UpdateDNSRecord sessionID (UnFqdn zone)
                (records @ [\<lparr>nc_ID = 0, Hostname = strings_Replace1 fqdn (CHR ''.'' # zone) [],
                      RecordType = ''TXT'', Destination = val, DeleteRecord = False,
                      nc_TTL = nc_cfg_TTL n\<rparr>]) u,
              Nc_Logout sessionID errL]))"
    using nc_zone nc_login nc_fetch nc_update nc_logout
    by (cases u) (simp_all add: netcup_Present_def netcup_Present_body_def invoke_def Let_def)
qed

theorem fetch_failure_hostingde_stops_netcup_submits_witness:
  "hostingde_Present hd_unreachable ''example.com'' ''token'' ''_acme-challenge.example.com.''
        ''abc123'' Map.empty ((), [])
     = (Some (Errorf ''hostingde: '' (Failure ''zone fetch failed'')), Map.empty,
        ((), [Call_getZone (zonesFind hd_unreachable) (Inl (Failure ''zone fetch failed''))]))
   \<and> netcup_Present nc_fetch_fails ''example.com'' ''token'' ''_acme-challenge.example.com.''
        ''abc123'' ((), [])
     = (Returned None,
        ((), [Nc_FindZoneByFqdn ''_acme-challenge.example.com.'' (Inr ''example.com.''),
              Nc_Login (Inr ''sid''),
              Nc_GetDNSRecords ''example.com'' ''sid'' ([], Some (Failure ''fetch failed'')),
              Nc_UpdateDNSRecord ''sid'' ''example.com''
                [\<lparr>nc_ID = 0, Hostname = ''_acme-challenge'', RecordType = ''TXT'',
                  Destination = ''abc123'', DeleteRecord = False, nc_TTL = 300\<rparr>] None,
              Nc_Logout ''sid'' None]))"
  using fetch_failure_hostingde_stops_netcup_submits [of hd_unreachable "((), [])"
      "Failure ''zone fetch failed''" "()" nc_fetch_fails "''_acme-challenge.example.com.''"
      "((), [])" "''example.com.''" "()" "''sid''" "()" "[]" "Failure ''fetch failed''" "()"
      "''abc123''" None "()" None "()" "''example.com''" "''token''" Map.empty]
  by (simp add: hd_unreachable_def hd_stub_def nc_fetch_fails_def nc_stub_def UnFqdn_def)

text \<open>
  Claim C6 as stated fails for netcup: the fetch fails, and \<open>Present\<close> submits the update
  and returns \<open>nil\<close>.
\<close>

theorem netcup_Present_fetch_failure_counterexample:
  "list_ex nc_fetch_failed (snd (snd (netcup_Present nc_fetch_fails ''example.com'' ''token''
        ''_acme-challenge.example.com.'' ''abc123'' ((), []))))
   \<and> \<not> (is_error (fst (netcup_Present nc_fetch_fails ''example.com'' ''token''
        ''_acme-challenge.example.com.'' ''abc123'' ((), [])))
        \<and> filter is_nc_update (snd (snd (netcup_Present nc_fetch_fails ''example.com'' ''token''
        ''_acme-challenge.example.com.'' ''abc123'' ((), [])))) = [])"
  by (simp add: netcup_Present_def netcup_Present_body_def invoke_def Let_def is_error_def
      nc_fetch_fails_def nc_stub_def)

subsection \<open>Round trip on the in-memory services\<close>

lemma fold_max_ge: "(a::'a::linorder) \<le> fold max xs a"
proof (induction xs arbitrary: a)
  case Nil
  show ?case by simp
next
  case (Cons x xs)
  have "a \<le> max x a" by simp
  also have "\<dots> \<le> fold max xs (max x a)" by (rule Cons.IH)
  finally show ?case by simp
qed

lemma fold_max_mem: "(x::'a::linorder) \<in> set xs \<Longrightarrow> x \<le> fold max xs a"
proof (induction xs arbitrary: a)
  case Nil
  then show ?case by simp
next
  case (Cons y ys)
  show ?case
  proof (cases "x = y")
    case True
    have "y \<le> max y a" by simp
    also have "\<dots> \<le> fold max ys (max y a)" by (rule fold_max_ge)
    finally show ?thesis using True by simp
  next
    case False
    with Cons show ?thesis by simp
  qed
qed

lemma mem_fresh_above: "r \<in> set zone \<Longrightarrow> rec_ID r < mem_fresh zone"
  using fold_max_mem [of "rec_ID r" "map rec_ID zone" 0] by (simp add: mem_fresh_def)

lemma mem_fresh_filter: "filter (\<lambda>r. rec_ID r \<noteq> mem_fresh zone) zone = zone"
proof -
  have "\<forall>r \<in> set zone. rec_ID r \<noteq> mem_fresh zone"
    using mem_fresh_above by fastforce
  then show ?thesis by (simp add: filter_id_conv)
qed

lemma filter_none: "\<not> list_ex P xs \<Longrightarrow> filter P xs = []"
  by (induction xs) simp_all

lemma inwx_mem_Present_fresh:
  assumes "\<not> list_ex (\<lambda>r. rec_Name r = UnFqdn fqdn \<and> rec_Type r = ''TXT'') zone"
  shows "inwx_Present inwx_mem domain token fqdn val (zone, log)
      = (None, (zone @ [\<lparr>rec_ID = mem_fresh zone, rec_Name = UnFqdn fqdn, rec_Type = ''TXT'',
                 rec_Content = val, rec_TTL = 300\<rparr>],
          log @ [Call_FindZoneByFqdn fqdn (Inr ''example.com.''), Call_Login None,
           Call_CreateRecord \<lparr>req_Domain = UnFqdn ''example.com.'', req_Name = UnFqdn fqdn,
              req_Type = ''TXT'', req_Content = val, req_TTL = 300\<rparr> (Inr (mem_fresh zone)),
           Call_Logout None]))"
proof -
  have nodup: "\<not> list_ex (\<lambda>r. rec_Name r = UnFqdn fqdn \<and> rec_Type r = ''TXT'' \<and> rec_Content r = val) zone"
    using assms by (auto simp add: list_ex_iff)
  show ?thesis
    using nodup
    by (simp add: inwx_Present_def inwx_Present_body_def invoke_def inwx_mem_def mem_inwx_def Let_def
        del: UnFqdn_def)
qed

lemma inwx_mem_CleanUp_single:
  assumes "\<not> list_ex (\<lambda>r. rec_Name r = UnFqdn fqdn \<and> rec_Type r = ''TXT'') zone"
  shows "fst (inwx_CleanUp inwx_mem domain token fqdn val
            (zone @ [\<lparr>rec_ID = mem_fresh zone, rec_Name = UnFqdn fqdn, rec_Type = ''TXT'',
                 rec_Content = val', rec_TTL = ttl\<rparr>], log)) = None
      \<and> fst (snd (inwx_CleanUp inwx_mem domain token fqdn val
            (zone @ [\<lparr>rec_ID = mem_fresh zone, rec_Name = UnFqdn fqdn, rec_Type = ''TXT'',
                 rec_Content = val', rec_TTL = ttl\<rparr>], log))) = zone"
proof -
  let ?new = "\<lparr>rec_ID = mem_fresh zone, rec_Name = UnFqdn fqdn, rec_Type = ''TXT'',
                 rec_Content = val', rec_TTL = ttl\<rparr>"
  have listed: "filter (\<lambda>r. rec_Name r = UnFqdn fqdn \<and> rec_Type r = ''TXT'') (zone @ [?new]) = [?new]"
    using assms by (simp add: filter_none)
  show ?thesis
    using listed mem_fresh_filter [of zone]
    by (simp add: inwx_CleanUp_def inwx_CleanUp_body_def invoke_def inwx_mem_def mem_inwx_def)
qed

lemma inwx_mem_round_trip:
  assumes "\<not> list_ex (\<lambda>r. rec_Name r = UnFqdn fqdn \<and> rec_Type r = ''TXT'') zone"
  shows "inwx_round_trip inwx_mem domain token fqdn val zone
     = (None, None,
        zone @ [\<lparr>rec_ID = mem_fresh zone, rec_Name = UnFqdn fqdn, rec_Type = ''TXT'',
                 rec_Content = val, rec_TTL = 300\<rparr>],
        zone)"
proof -
  let ?new = "\<lparr>rec_ID = mem_fresh zone, rec_Name = UnFqdn fqdn, rec_Type = ''TXT'',
                 rec_Content = val, rec_TTL = 300\<rparr>"
  obtain e1 s1 where p: "inwx_Present inwx_mem domain token fqdn val (zone, []) = (e1, s1)"
    by (cases "inwx_Present inwx_mem domain token fqdn val (zone, [])")
  with inwx_mem_Present_fresh [OF assms, of domain token val "[]"]
  have e1: "e1 = None" and s1: "s1 = (zone @ [?new], snd s1)" by auto
  obtain e2 s2 where c: "inwx_CleanUp inwx_mem domain token fqdn val s1 = (e2, s2)"
    by (cases "inwx_CleanUp inwx_mem domain token fqdn val s1")
  from inwx_mem_CleanUp_single [OF assms, of domain token val val 300 "snd s1"] s1 c
  have "e2 = None" "fst s2 = zone" by auto
  with p c e1 s1 show ?thesis
    by (simp add: inwx_round_trip_def) (metis fst_conv)
qed

lemma hd_store_ids_snoc:
  "hd_store_ids (rs @ [r]) fqdn val m =
     (if hd_Name r = UnFqdn fqdn \<and> hd_Content r = quoted val
      then (hd_store_ids rs fqdn val m)(fqdn \<mapsto> hd_ID r)
      else hd_store_ids rs fqdn val m)"
  by (induction rs arbitrary: m) simp_all

lemma mem_hd_fresh_nonempty: "mem_hd_fresh zone \<noteq> []"
  by (simp add: mem_hd_fresh_def)

lemma mem_hd_update_add:
  "updateZone mem_hd \<lparr>upd_AuthToken = k, upd_ZoneConfig = zc, RecordsToAdd = [r], RecordsToDelete = []\<rparr> zone
    = (Inr \<lparr>Response_Records = zone @ [r\<lparr>hd_ID := mem_hd_fresh zone, hd_Content := quoted (hd_Content r)\<rparr>]\<rparr>,
       zone @ [r\<lparr>hd_ID := mem_hd_fresh zone, hd_Content := quoted (hd_Content r)\<rparr>])"
  by (simp add: mem_hd_def mem_hd_listed_def mem_hd_add_def Let_def)

lemma mem_hd_update_delete:
  assumes "\<not> list_ex (\<lambda>x. hd_Name x = n \<and> hd_Type x = t \<and> hd_Content x = c) zone"
  shows "updateZone mem_hd \<lparr>upd_AuthToken = k, upd_ZoneConfig = zc, RecordsToAdd = [],
            RecordsToDelete = [\<lparr>hd_ID = i, hd_Name = n, hd_Type = t, hd_Content = c, hd_TTL = l\<rparr>]\<rparr>
          (zone @ [\<lparr>hd_ID = j, hd_Name = n, hd_Type = t, hd_Content = c, hd_TTL = l'\<rparr>])
    = (Inr \<lparr>Response_Records = zone\<rparr>, zone)"
proof -
  have "filter (\<lambda>r. \<not> (n = hd_Name r \<and> t = hd_Type r \<and> c = hd_Content r)) zone = zone"
    using assms by (auto simp add: filter_id_conv list_ex_iff)
  then show ?thesis
    by (simp add: mem_hd_def mem_hd_listed_def Let_def)
qed

lemma mem_hd_getZone:
  "getZone mem_hd request w = (Inr \<lparr>zc_ID = ''zone-1'', zc_Name = find_Value request\<rparr>, w)"
  by (simp add: mem_hd_def)

lemma hostingde_Present_run:
  assumes "getZone (hd_client d) (zonesFind d) w = (Inr zoneConfig, w1)"
    and "updateZone (hd_client d)
        \<lparr>upd_AuthToken = hd_APIKey d, upd_ZoneConfig = zoneConfig\<lparr>zc_Name := hd_ZoneName d\<rparr>,
         RecordsToAdd = [\<lparr>hd_ID = [], hd_Name = UnFqdn fqdn, hd_Type = ''TXT'',
                          hd_Content = val, hd_TTL = hd_cfg_TTL d\<rparr>],
         RecordsToDelete = []\<rparr> w1 = (Inr resp, w2)"
  shows "fst (hostingde_Present d domain token fqdn val recordIDs (w, log))
        = (if map_index (hd_store_ids (Response_Records resp) fqdn val recordIDs) fqdn = []
           then Some (Failure (''hostingde: error getting ID of just created record, for domain '' @ domain))
           else None)
      \<and> fst (snd (hostingde_Present d domain token fqdn val recordIDs (w, log)))
        = hd_store_ids (Response_Records resp) fqdn val recordIDs
      \<and> fst (snd (snd (hostingde_Present d domain token fqdn val recordIDs (w, log)))) = w2"
  using assms by (simp add: hostingde_Present_def invoke_def Let_def)

lemma hostingde_CleanUp_run:
  assumes "getZone (hd_client d) (zonesFind d) w = (Inr zoneConfig, w1)"
    and "updateZone (hd_client d)
        \<lparr>upd_AuthToken = hd_APIKey d, upd_ZoneConfig = zoneConfig\<lparr>zc_Name := hd_ZoneName d\<rparr>,
         RecordsToAdd = [],
         RecordsToDelete = [\<lparr>hd_ID = [], hd_Name = UnFqdn fqdn, hd_Type = ''TXT'',
                             hd_Content = quoted val, hd_TTL = 0\<rparr>]\<rparr> w1 = (Inr resp, w2)"
  shows "fst (hostingde_CleanUp d domain token fqdn val recordIDs (w, log)) = None
      \<and> fst (snd (hostingde_CleanUp d domain token fqdn val recordIDs (w, log)))
        = recordIDs(fqdn := None)
      \<and> fst (snd (snd (hostingde_CleanUp d domain token fqdn val recordIDs (w, log)))) = w2"
  using assms by (simp add: hostingde_CleanUp_def invoke_def Let_def)

lemma hd_mem_round_trip:
  assumes "\<not> list_ex (\<lambda>r. hd_Name r = UnFqdn fqdn \<and> hd_Type r = ''TXT''
              \<and> hd_Content r = quoted val) zone"
  shows "hostingde_round_trip hd_mem domain token fqdn val recordIDs zone
     = (None, None,
        zone @ [\<lparr>hd_ID = mem_hd_fresh zone, hd_Name = UnFqdn fqdn, hd_Type = ''TXT'',
                 hd_Content = quoted val, hd_TTL = 300\<rparr>],
        zone)"
proof -
  let ?new = "\<lparr>hd_ID = mem_hd_fresh zone, hd_Name = UnFqdn fqdn, hd_Type = ''TXT'',
                 hd_Content = quoted val, hd_TTL = 300\<rparr>"
  let ?zc = "\<lparr>zc_ID = ''zone-1'', zc_Name = ''example.com''\<rparr>"
  have g: "getZone (hd_client hd_mem) (zonesFind hd_mem) w = (Inr ?zc, w)" for w
    by (simp add: hd_mem_def zonesFind_def mem_hd_getZone)
  have a: "updateZone (hd_client hd_mem)
        \<lparr>upd_AuthToken = hd_APIKey hd_mem, upd_ZoneConfig = ?zc\<lparr>zc_Name := hd_ZoneName hd_mem\<rparr>,
         RecordsToAdd = [\<lparr>hd_ID = [], hd_Name = UnFqdn fqdn, hd_Type = ''TXT'',
                          hd_Content = val, hd_TTL = hd_cfg_TTL hd_mem\<rparr>],
         RecordsToDelete = []\<rparr> zone = (Inr \<lparr>Response_Records = zone @ [?new]\<rparr>, zone @ [?new])"
    by (simp add: hd_mem_def mem_hd_update_add)
  have b: "updateZone (hd_client hd_mem)
        \<lparr>upd_AuthToken = hd_APIKey hd_mem, upd_ZoneConfig = ?zc\<lparr>zc_Name := hd_ZoneName hd_mem\<rparr>,
         RecordsToAdd = [],
         RecordsToDelete = [\<lparr>hd_ID = [], hd_Name = UnFqdn fqdn, hd_Type = ''TXT'',
                             hd_Content = quoted val, hd_TTL = 0\<rparr>]\<rparr> (zone @ [?new])
       = (Inr \<lparr>Response_Records = zone\<rparr>, zone)"
    using mem_hd_update_delete [OF assms] by (simp add: hd_mem_def)
  obtain e1 ids1 s1 where p: "hostingde_Present hd_mem domain token fqdn val recordIDs (zone, []) = (e1, ids1, s1)"
    by (cases "hostingde_Present hd_mem domain token fqdn val recordIDs (zone, [])")
  from hostingde_Present_run [OF g a, where domain = domain and recordIDs = recordIDs and log = "[]" and token = token] p
  have e1: "e1 = None" and s1: "fst s1 = zone @ [?new]"
    by (simp_all add: hd_store_ids_snoc map_index_def mem_hd_fresh_nonempty)
  obtain e2 ids2 s2 where c: "hostingde_CleanUp hd_mem domain token fqdn val ids1 s1 = (e2, ids2, s2)"
    by (cases "hostingde_CleanUp hd_mem domain token fqdn val ids1 s1")
  from hostingde_CleanUp_run [OF g b, where domain = domain and token = token and recordIDs = ids1 and log = "snd s1"] s1 c
  have "e2 = None" "fst s2 = zone"
    by (cases s1; simp)+
  with p c e1 s1 show ?thesis
    by (simp add: hostingde_round_trip_def)
qed

lemma mem_nc_fresh_above: "r \<in> set zone \<Longrightarrow> nc_ID r < mem_nc_fresh zone"
  using fold_max_mem [of "nc_ID r" "map nc_ID zone" 0] by (simp add: mem_nc_fresh_def)

lemma mem_nc_fresh_filter: "filter (\<lambda>r. nc_ID r \<noteq> mem_nc_fresh zone) zone = zone"
proof -
  have "\<forall>r \<in> set zone. nc_ID r \<noteq> mem_nc_fresh zone"
    using mem_nc_fresh_above by fastforce
  then show ?thesis by (simp add: filter_id_conv)
qed

lemma mem_nc_apply_stored:
  "\<forall>r \<in> set rs. \<not> DeleteRecord r \<and> r \<in> set w \<Longrightarrow> fold mem_nc_apply rs w = w"
  by (induction rs) (simp_all add: mem_nc_apply_def)

lemma GetDNSRecordIdx_spec_last:
  assumes "\<not> list_ex (\<lambda>r. Hostname r = Hostname record \<and> Destination r = Destination record) zone"
    and "Hostname n = Hostname record" "Destination n = Destination record"
  shows "GetDNSRecordIdx_spec (zone @ [n]) record = Inr (int (length zone))"
  using assms by (induction zone) simp_all

lemma nc_mem_Present_fresh:
  assumes unmarked: "\<not> list_ex DeleteRecord zone"
    and absent: "\<not> list_ex (\<lambda>r. Hostname r = strings_Replace1 fqdn ''.example.com.'' []
                    \<and> Destination r = val) zone"
  shows "fst (netcup_Present nc_mem domainName token fqdn val (zone, log)) = Returned None
       \<and> fst (snd (netcup_Present nc_mem domainName token fqdn val (zone, log)))
         = zone @ [\<lparr>nc_ID = mem_nc_fresh zone, Hostname = strings_Replace1 fqdn ''.example.com.'' [],
                    RecordType = ''TXT'', Destination = val, DeleteRecord = False, nc_TTL = 300\<rparr>]"
proof -
  let ?wanted = "\<lparr>nc_ID = 0, Hostname = strings_Replace1 fqdn ''.example.com.'' [],
                    RecordType = ''TXT'', Destination = val, DeleteRecord = False, nc_TTL = 300\<rparr>"
  have kept: "fold mem_nc_apply zone zone = zone"
    using unmarked by (intro mem_nc_apply_stored) (simp add: list_ex_iff)
  have new: "?wanted \<notin> set zone"
    using absent by (auto simp add: list_ex_iff)
  have "fold mem_nc_apply (zone @ [?wanted]) zone = mem_nc_apply ?wanted (fold mem_nc_apply zone zone)"
    by simp
  also have "\<dots> = mem_nc_apply ?wanted zone"
    by (simp only: kept)
  also have "\<dots> = zone @ [?wanted\<lparr>nc_ID := mem_nc_fresh zone\<rparr>]"
    using new by (simp add: mem_nc_apply_def)
  finally have upd: "fold mem_nc_apply (zone @ [?wanted]) zone
      = zone @ [?wanted\<lparr>nc_ID := mem_nc_fresh zone\<rparr>]" .
  have c: "nc_client nc_mem = mem_nc" "nc_cfg_TTL nc_mem = 300"
    by (simp_all add: nc_mem_def)
  have u: "UpdateDNSRecord mem_nc sid z rs w = (None, fold mem_nc_apply rs w)" for sid z rs w
    by (simp add: mem_nc_def)
  have g: "GetDNSRecords mem_nc z sid w = ((w, None), w)" for sid z w
    by (simp add: mem_nc_def)
  have f: "nc_FindZoneByFqdn mem_nc fqdn w = (Inr ''example.com.'', w)" for w
    by (simp add: mem_nc_def)
  have l: "nc_Login mem_nc w = (Inr ''sid'', w)" "nc_Logout mem_nc sid w = (None, w)" for w sid
    by (simp_all add: mem_nc_def)
  show ?thesis
    by (simp add: netcup_Present_def netcup_Present_body_def invoke_def Let_def c u g f l upd
        del: fold_append)
qed

lemma nc_mem_CleanUp_last:
  assumes absent: "\<not> list_ex (\<lambda>r. Hostname r = strings_Replace1 fqdn ''.example.com.'' []
                    \<and> Destination r = val) zone"
  shows "fst (netcup_CleanUp nc_mem domainName token fqdn val
            (zone @ [\<lparr>nc_ID = mem_nc_fresh zone, Hostname = strings_Replace1 fqdn ''.example.com.'' [],
                    RecordType = ''TXT'', Destination = val, DeleteRecord = False, nc_TTL = ttl\<rparr>], log))
          = Returned None
       \<and> fst (snd (netcup_CleanUp nc_mem domainName token fqdn val
            (zone @ [\<lparr>nc_ID = mem_nc_fresh zone, Hostname = strings_Replace1 fqdn ''.example.com.'' [],
                    RecordType = ''TXT'', Destination = val, DeleteRecord = False, nc_TTL = ttl\<rparr>], log)))
          = zone"
proof -
  let ?new = "\<lparr>nc_ID = mem_nc_fresh zone, Hostname = strings_Replace1 fqdn ''.example.com.'' [],
                    RecordType = ''TXT'', Destination = val, DeleteRecord = False, nc_TTL = ttl\<rparr>"
  let ?wanted = "\<lparr>nc_ID = 0, Hostname = strings_Replace1 fqdn ''.example.com.'' [],
                    RecordType = ''TXT'', Destination = val, DeleteRecord = False, nc_TTL = 0\<rparr>"
  have idx: "GetDNSRecordIdx_spec (zone @ [?new]) ?wanted = Inr (int (length zone))"
    using absent by (intro GetDNSRecordIdx_spec_last) simp_all
  have c: "nc_client nc_mem = mem_nc"
    by (simp add: nc_mem_def)
  have u: "UpdateDNSRecord mem_nc sid z rs w = (None, fold mem_nc_apply rs w)" for sid z rs w
    by (simp add: mem_nc_def)
  have g: "GetDNSRecords mem_nc z sid w = ((w, None), w)" for sid z w
    by (simp add: mem_nc_def)
  have f: "nc_FindZoneByFqdn mem_nc fqdn w = (Inr ''example.com.'', w)" for w
    by (simp add: mem_nc_def)
  have l: "nc_Login mem_nc w = (Inr ''sid'', w)" "nc_Logout mem_nc sid w = (None, w)" for w sid
    by (simp_all add: mem_nc_def)
  have i: "GetDNSRecordIdx mem_nc = GetDNSRecordIdx_spec"
    by (simp add: mem_nc_def)
  have del: "mem_nc_apply (?new\<lparr>DeleteRecord := True\<rparr>) (zone @ [?new]) = zone"
    using mem_nc_fresh_filter [of zone] by (simp add: mem_nc_apply_def)
  show ?thesis
    using del
    by (simp add: netcup_CleanUp_def netcup_CleanUp_body_def invoke_def Let_def c u g f l i idx)
qed

lemma nc_mem_round_trip:
  assumes unmarked: "\<not> list_ex DeleteRecord zone"
    and absent: "\<not> list_ex (\<lambda>r. Hostname r = strings_Replace1 fqdn ''.example.com.'' []
                    \<and> Destination r = val) zone"
  shows "netcup_round_trip nc_mem domainName token fqdn val zone
     = (Returned None, Returned None,
        zone @ [\<lparr>nc_ID = mem_nc_fresh zone, Hostname = strings_Replace1 fqdn ''.example.com.'' [],
                 RecordType = ''TXT'', Destination = val, DeleteRecord = False, nc_TTL = 300\<rparr>],
        zone)"
proof -
  let ?new = "\<lparr>nc_ID = mem_nc_fresh zone, Hostname = strings_Replace1 fqdn ''.example.com.'' [],
                 RecordType = ''TXT'', Destination = val, DeleteRecord = False, nc_TTL = 300\<rparr>"
  obtain e1 s1 where p: "netcup_Present nc_mem domainName token fqdn val (zone, []) = (e1, s1)"
    by (cases "netcup_Present nc_mem domainName token fqdn val (zone, [])")
  with nc_mem_Present_fresh [OF assms, of domainName token "[]"]
  have e1: "e1 = Returned None" and z1: "fst s1 = zone @ [?new]" by auto
  from z1 have s1: "s1 = (zone @ [?new], snd s1)" by (cases s1) simp
  obtain e2 s2 where c: "netcup_CleanUp nc_mem domainName token fqdn val s1 = (e2, s2)"
    by (cases "netcup_CleanUp nc_mem domainName token fqdn val s1")
  from nc_mem_CleanUp_last [OF absent, of domainName token 300 "snd s1"] s1 c
  have "e2 = Returned None" "fst s2 = zone" by auto
  with p c e1 s1 show ?thesis
    by (simp add: netcup_round_trip_def) (metis fst_conv)
qed

text \<open>
  Claim C2, as amended. Against the in-memory inwx, hostingde and netcup services, for
  all arguments and every zone that holds no TXT record under the challenge name (inwx),
  no TXT record with the challenge name and the quoted value (hostingde), or no record
  marked for deletion and no record whose destination is the value (netcup):
  \<open>Present\<close> and then \<open>CleanUp\<close> with the same arguments both return \<open>nil\<close>, \<open>Present\<close>
  appends one record to the zone, and \<open>CleanUp\<close> leaves the zone as it was before
  \<open>Present\<close>.
\<close>

theorem round_trip_without_prior_record:
  assumes "\<not> list_ex (\<lambda>r. rec_Name r = UnFqdn fqdn \<and> rec_Type r = ''TXT'') zone"
    and "\<not> list_ex (\<lambda>r. hd_Name r = UnFqdn fqdn \<and> hd_Type r = ''TXT''
              \<and> hd_Content r = quoted val) hzone"
    and "\<not> list_ex DeleteRecord nzone"
    and "\<not> list_ex (\<lambda>r. Destination r = val) nzone"
  shows "inwx_round_trip inwx_mem domain token fqdn val zone
       = (None, None,
          zone @ [\<lparr>rec_ID = mem_fresh zone, rec_Name = UnFqdn fqdn, rec_Type = ''TXT'',
                   rec_Content = val, rec_TTL = 300\<rparr>],
          zone)
     \<and> hostingde_round_trip hd_mem domain token fqdn val recordIDs hzone
       = (None, None,
          hzone @ [\<lparr>hd_ID = mem_hd_fresh hzone, hd_Name = UnFqdn fqdn, hd_Type = ''TXT'',
                    hd_Content = quoted val, hd_TTL = 300\<rparr>],
          hzone)
     \<and> netcup_round_trip nc_mem domain token fqdn val nzone
       = (Returned None, Returned None,
          nzone @ [\<lparr>nc_ID = mem_nc_fresh nzone,
                    Hostname = strings_Replace1 fqdn ''.example.com.'' [],
                    RecordType = ''TXT'', Destination = val, DeleteRecord = False,
                    nc_TTL = 300\<rparr>],
          nzone)"
proof -
  have absent: "\<not> list_ex (\<lambda>r. Hostname r = strings_Replace1 fqdn ''.example.com.'' []
              \<and> Destination r = val) nzone"
    using assms(4) by (auto simp add: list_ex_iff)
  show ?thesis
    using inwx_mem_round_trip [OF assms(1)] hd_mem_round_trip [OF assms(2)]
      nc_mem_round_trip [OF assms(3) absent] by simp
qed

theorem round_trip_without_prior_record_witness:
  "inwx_round_trip inwx_mem ''example.com'' ''token'' ''_acme-challenge.example.com.'' ''abc123''
       zone_www
     = (None, None,
        zone_www @ [\<lparr>rec_ID = 6, rec_Name = ''_acme-challenge.example.com'', rec_Type = ''TXT'',
                      rec_Content = ''abc123'', rec_TTL = 300\<rparr>],
        zone_www)
   \<and> hostingde_round_trip hd_mem ''example.com'' ''token'' ''_acme-challenge.example.com.''
       ''abc123'' Map.empty hd_zone_www
     = (None, None,
        hd_zone_www @ [\<lparr>hd_ID = ''rrr'', hd_Name = ''_acme-challenge.example.com'',
                         hd_Type = ''TXT'', hd_Content = quoted ''abc123'', hd_TTL = 300\<rparr>],
        hd_zone_www)
   \<and> netcup_round_trip nc_mem ''example.com'' ''token'' ''_acme-challenge.example.com.''
       ''abc123'' nc_zone_www
     = (Returned None, Returned None,
        nc_zone_www @ [\<lparr>nc_ID = 6, Hostname = ''_acme-challenge'', RecordType = ''TXT'',
                         Destination = ''abc123'', DeleteRecord = False, nc_TTL = 300\<rparr>],
        nc_zone_www)"
proof -
  have h1: "\<not> list_ex (\<lambda>r. rec_Name r = UnFqdn ''_acme-challenge.example.com.'' \<and> rec_Type r = ''TXT'')
      zone_www"
    by (simp add: zone_www_def)
  have h2: "\<not> list_ex (\<lambda>r. hd_Name r = UnFqdn ''_acme-challenge.example.com.'' \<and> hd_Type r = ''TXT''
              \<and> hd_Content r = quoted ''abc123'') hd_zone_www"
    by (simp add: hd_zone_www_def)
  have h3: "\<not> list_ex DeleteRecord nc_zone_www"
    by (simp add: nc_zone_www_def)
  have h4: "\<not> list_ex (\<lambda>r. Destination r = ''abc123'') nc_zone_www"
    by (simp add: nc_zone_www_def)
  have f1: "mem_fresh zone_www = 6"
    by (simp add: mem_fresh_def zone_www_def)
  have f2: "mem_hd_fresh hd_zone_www = ''rrr''"
    by (simp add: mem_hd_fresh_def hd_zone_www_def)
  have f3: "mem_nc_fresh nc_zone_www = 6"
    by (simp add: mem_nc_fresh_def nc_zone_www_def)
  have u: "UnFqdn ''_acme-challenge.example.com.'' = ''_acme-challenge.example.com''"
    by (simp add: UnFqdn_def)
  have r: "strings_Replace1 ''_acme-challenge.example.com.'' ''.example.com.'' [] = ''_acme-challenge''"
    by simp
  from round_trip_without_prior_record [OF h1 h2 h3 h4, of "''example.com''" "''token''" Map.empty]
  show ?thesis by (simp only: f1 f2 f3 u r)
qed

text \<open>
  Claim C2 as stated fails on a zone that already holds the record: \<open>Present\<close> is answered
  "Object exists" and returns \<open>nil\<close>, \<open>CleanUp\<close> deletes the record and returns \<open>nil\<close>, and
  the zone is not the one before \<open>Present\<close>.
\<close>

theorem round_trip_prior_record_counterexample:
  "fst (inwx_round_trip inwx_mem ''example.com'' ''token'' ''_acme-challenge.example.com.''
          ''abc123'' zone_same) = None
   \<and> fst (snd (inwx_round_trip inwx_mem ''example.com'' ''token'' ''_acme-challenge.example.com.''
          ''abc123'' zone_same)) = None
   \<and> snd (snd (snd (inwx_round_trip inwx_mem ''example.com'' ''token''
          ''_acme-challenge.example.com.'' ''abc123'' zone_same))) \<noteq> zone_same"
  by (simp add: inwx_round_trip_def inwx_Present_def inwx_Present_body_def inwx_CleanUp_def
      inwx_CleanUp_body_def invoke_def inwx_mem_def mem_inwx_def zone_same_def UnFqdn_def Let_def)

text \<open>
  On a zone that already holds the record, the in-memory hostingde service stores a
  second record and the clean-up drops both; the in-memory netcup service stores a second
  one and the clean-up deletes the first match, the one that was there before.
\<close>

lemma hd_round_trip_prior_record:
  "hostingde_round_trip hd_mem ''example.com'' ''token'' ''_acme-challenge.example.com.''
      ''abc123'' Map.empty hd_zone_same
   = (None, None,
      hd_zone_same @ [\<lparr>hd_ID = ''rrr'', hd_Name = ''_acme-challenge.example.com'',
                        hd_Type = ''TXT'', hd_Content = quoted ''abc123'', hd_TTL = 300\<rparr>],
      [])"
  by (simp add: hostingde_round_trip_def hostingde_Present_def hostingde_CleanUp_def invoke_def
      Let_def hd_mem_def mem_hd_def mem_hd_add_def mem_hd_listed_def mem_hd_fresh_def
      zonesFind_def map_index_def hd_zone_same_def UnFqdn_def)

lemma nc_round_trip_prior_record:
  "netcup_round_trip nc_mem ''example.com'' ''token'' ''_acme-challenge.example.com.''
      ''abc123'' nc_zone_same
   = (Returned None, Returned None,
      nc_zone_same @ [\<lparr>nc_ID = 6, Hostname = ''_acme-challenge'', RecordType = ''TXT'',
                        Destination = ''abc123'', DeleteRecord = False, nc_TTL = 300\<rparr>],
      [\<lparr>nc_ID = 6, Hostname = ''_acme-challenge'', RecordType = ''TXT'',
        Destination = ''abc123'', DeleteRecord = False, nc_TTL = 300\<rparr>])"
  by (simp add: netcup_round_trip_def netcup_Present_def netcup_Present_body_def
      netcup_CleanUp_def netcup_CleanUp_body_def invoke_def Let_def nc_mem_def mem_nc_def
      mem_nc_apply_def mem_nc_fresh_def nc_zone_same_def UnFqdn_def)

end
